theory Spec2Isabelle
  imports Main
begin

section \<open>Constants of log.go\<close>

definition timeKey :: string where "timeKey = ''time''"
definition levelKey :: string where "levelKey = ''level''"
definition messageKey :: string where "messageKey = ''msg''"
definition defaultLevel :: string where "defaultLevel = ''info''"
definition defaultEncoding :: string where "defaultEncoding = ''json''"
definition maxsize :: int where "maxsize = 20"
definition maxcount :: int where "maxcount = 3"
definition defaultInstanceID :: string where "defaultInstanceID = ''instance_1''"

text \<open>\<^verbatim>\<open>fmt.Sprintf(logFilePathFormat, s)\<close> with the format \<^verbatim>\<open>"/logs/%s.log"\<close>.\<close>

definition logFilePathFormat :: "string \<Rightarrow> string" where
  "logFilePathFormat s = ''/logs/'' @ s @ ''.log''"

section \<open>Failures and the outcome of a call\<close>

text \<open>
  A Go panic and a returned \<^verbatim>\<open>error\<close> are values. A call of the logging surface
  may change the sinks and only then panic or leave the process, so it returns how it
  ended together with the world it left behind.
\<close>

datatype failure = GoPanic string | GoError string

datatype status = Returned | Panicked string | Exited int

definition nilDereference :: string where
  "nilDereference = ''invalid memory address or nil pointer dereference''"

section \<open>The collaborators that are not part of the package\<close>

text \<open>
  The standard library functions the package calls are parameters of the model:
  \<^verbatim>\<open>strings.ToLower\<close>, \<^verbatim>\<open>syslog.Dial\<close> (protocol, address, tag; an error text or
  the handle of the connection) and \<^verbatim>\<open>fmt.Sprintf\<close> on a format and its arguments.
\<close>

record env =
  ToLower :: "string \<Rightarrow> string"
  Dial :: "string \<Rightarrow> string \<Rightarrow> string \<Rightarrow> string + nat"
  Sprintf :: "string \<Rightarrow> string list \<Rightarrow> string"

text \<open>
  Modelled from the spec: the severity enum of the zap library (\<^verbatim>\<open>zapcore.Level\<close>),
  which is not under src/. Section 3 of the spec: a totally ordered enum
  Debug < Info < Warn < Error < Panic < Fatal; section 6: the level is rendered as the
  capitalized severity name.
\<close>

datatype Level = DebugLevel | InfoLevel | WarnLevel | ErrorLevel | PanicLevel | FatalLevel

fun rank :: "Level \<Rightarrow> nat" where
  "rank DebugLevel = 0"
| "rank InfoLevel = 1"
| "rank WarnLevel = 2"
| "rank ErrorLevel = 3"
| "rank PanicLevel = 4"
| "rank FatalLevel = 5"

fun CapitalString :: "Level \<Rightarrow> string" where
  "CapitalString DebugLevel = ''DEBUG''"
| "CapitalString InfoLevel = ''INFO''"
| "CapitalString WarnLevel = ''WARN''"
| "CapitalString ErrorLevel = ''ERROR''"
| "CapitalString PanicLevel = ''PANIC''"
| "CapitalString FatalLevel = ''FATAL''"

fun LowercaseString :: "Level \<Rightarrow> string" where
  "LowercaseString DebugLevel = ''debug''"
| "LowercaseString InfoLevel = ''info''"
| "LowercaseString WarnLevel = ''warn''"
| "LowercaseString ErrorLevel = ''error''"
| "LowercaseString PanicLevel = ''panic''"
| "LowercaseString FatalLevel = ''fatal''"

text \<open>
  The byte sinks a logger can write to: the syslog connection dialled at construction,
  the writer the caller passed to \<^verbatim>\<open>WithOutput\<close> (named by a handle of the caller's),
  and the lumberjack rotator allocated at construction (named by its address).
\<close>

datatype writer = Syslog nat | Out nat | Rotator nat

type_synonym fields = "(string \<times> string) list"

text \<open>
  Modelled from the spec: the record encoder of the zap library, which is not under
  src/. Section 2 of the spec treats it as a black box from a record to bytes, so a
  written record is kept structured: the encoding that rendered it and its key/value
  pairs in order (section 6: time, level, msg, the fixed metadata, then the caller's
  fields).
\<close>

record Entry =
  encodedAs :: string
  pairs :: fields

text \<open>
  The encoders an \<^verbatim>\<open>EncoderConfig\<close> selects for the level and the time: the ones
  \<^verbatim>\<open>NewLogger\<close> sets (\<^verbatim>\<open>zapcore.CapitalLevelEncoder\<close>, \<^verbatim>\<open>zapcore.ISO8601TimeEncoder\<close>) and
  the ones of the production configuration that it overrides.
\<close>

datatype LevelEncoder = LowercaseLevelEncoder | CapitalLevelEncoder

datatype TimeEncoder = EpochTimeEncoder | ISO8601TimeEncoder

fun encodeLevel :: "LevelEncoder \<Rightarrow> Level \<Rightarrow> string" where
  "encodeLevel LowercaseLevelEncoder lvl = LowercaseString lvl"
| "encodeLevel CapitalLevelEncoder lvl = CapitalString lvl"

record EncoderConfig =
  LevelKey :: string
  MessageKey :: string
  TimeKey :: string
  EncodeTime :: TimeEncoder
  EncodeLevel :: LevelEncoder

record Encoder =
  kind :: string
  keys :: EncoderConfig
  bound :: fields

definition NewJSONEncoder :: "EncoderConfig \<Rightarrow> Encoder" where
  "NewJSONEncoder ec = \<lparr>kind = ''json'', keys = ec, bound = []\<rparr>"

definition NewConsoleEncoder :: "EncoderConfig \<Rightarrow> Encoder" where
  "NewConsoleEncoder ec = \<lparr>kind = ''console'', keys = ec, bound = []\<rparr>"

text \<open>
  Modelled from the spec: what zap's encoder (not under src/) puts into a record.
  Section 6: the time, the level and the message under the configured keys, rendered
  by the configured encoders, then the fixed metadata and the caller's fields. \<open>t\<close> is
  the clock's reading, which gives the text of the current time under each time
  encoder.
\<close>

definition EncodeEntry ::
  "Encoder \<Rightarrow> (TimeEncoder \<Rightarrow> string) \<Rightarrow> Level \<Rightarrow> string \<Rightarrow> fields \<Rightarrow> Entry" where
  "EncodeEntry e t lvl msg fs =
     \<lparr>encodedAs = kind e,
      pairs = [(TimeKey (keys e), t (EncodeTime (keys e))),
               (LevelKey (keys e), encodeLevel (EncodeLevel (keys e)) lvl),
               (MessageKey (keys e), msg)] @ bound e @ fs\<rparr>"

text \<open>\<^verbatim>\<open>lumberjack.Logger\<close>: the fields \<^verbatim>\<open>getLogRotator\<close> sets.\<close>

record lumberjack =
  Filename :: string
  MaxSize :: int
  MaxBackups :: int
  LocalTime :: bool
  Compress :: bool

text \<open>
  The world outside a logger value: the cells of the atomic levels and the rotators
  (both reached through pointers, so that two loggers can share one), what each sink
  has received so far, and the clock's current reading: the text of the current time
  under each time encoder.
\<close>

record world =
  levels :: "nat \<Rightarrow> Level"
  nextLevel :: nat
  rotators :: "nat \<Rightarrow> lumberjack"
  nextRotator :: nat
  written :: "writer \<Rightarrow> Entry list"
  clock :: "TimeEncoder \<Rightarrow> string"

text \<open>
  \<^verbatim>\<open>zap.AtomicLevel\<close> is a struct around a pointer to the cell: copying the struct
  copies the pointer. \<open>None\<close> is the zero value, whose pointer is nil.
\<close>

type_synonym AtomicLevel = "nat option"

definition NewAtomicLevelAt :: "Level \<Rightarrow> world \<Rightarrow> AtomicLevel \<times> world" where
  "NewAtomicLevelAt lvl st =
     (Some (nextLevel st),
      st\<lparr>levels := (levels st)(nextLevel st := lvl), nextLevel := Suc (nextLevel st)\<rparr>)"

definition SetLevel :: "AtomicLevel \<Rightarrow> Level \<Rightarrow> world \<Rightarrow> status \<times> world" where
  "SetLevel al lvl st =
     (case al of
        None \<Rightarrow> (Panicked nilDereference, st)
      | Some a \<Rightarrow> (Returned, st\<lparr>levels := (levels st)(a := lvl)\<rparr>))"

text \<open>
  Modelled from the spec: the level gate and the sink fan-out of the zap library
  (\<^verbatim>\<open>zapcore.NewCore\<close>, \<^verbatim>\<open>zapcore.NewMultiWriteSyncer\<close>), which are not under src/.
  Section 4.1: a record at severity S is emitted iff S is at or above the current
  threshold. Section 4.3: the same bytes are offered to every configured sink.
  Section 7: sink write errors are swallowed.
\<close>

definition Enabled :: "Level \<Rightarrow> Level \<Rightarrow> bool" where
  "Enabled threshold lvl = (rank threshold \<le> rank lvl)"

record ioCore =
  gate :: AtomicLevel
  encoder :: Encoder
  syncer :: "writer list"

definition NewCore :: "Encoder \<Rightarrow> writer list \<Rightarrow> AtomicLevel \<Rightarrow> ioCore" where
  "NewCore e ws al = \<lparr>gate = al, encoder = e, syncer = ws\<rparr>"

definition Write :: "writer \<Rightarrow> Entry \<Rightarrow> world \<Rightarrow> world" where
  "Write w e st = st\<lparr>written := (written st)(w := written st w @ [e])\<rparr>"

fun MultiWrite :: "writer list \<Rightarrow> Entry \<Rightarrow> world \<Rightarrow> world" where
  "MultiWrite [] e st = st"
| "MultiWrite (w # ws) e st = MultiWrite ws e (Write w e st)"

text \<open>
  Modelled from the spec: the sugared logger of the zap library, which is not under
  src/. A nil receiver panics. The variadic \<^verbatim>\<open>keyvals\<close> are the key/value pairs of
  section 4.4, and the arguments of a format are strings. Section 2: a log call checks
  the gate; if admitted,
  the record is rendered with the time, the severity, the message and the fields and
  written to the fan-out. Section 4.4: Panic and Fatal end the unit of work after the
  record has been handed over; section 7: they do so regardless of delivery.
\<close>

type_synonym SugaredLogger = ioCore

definition terminal :: "Level \<Rightarrow> string \<Rightarrow> status" where
  "terminal lvl msg =
     (case lvl of PanicLevel \<Rightarrow> Panicked msg | FatalLevel \<Rightarrow> Exited 1 | _ \<Rightarrow> Returned)"

definition sugar_log ::
  "SugaredLogger option \<Rightarrow> Level \<Rightarrow> string \<Rightarrow> fields \<Rightarrow> world \<Rightarrow> status \<times> world" where
  "sugar_log s lvl msg fs st =
     (case s of
        None \<Rightarrow> (Panicked nilDereference, st)
      | Some c \<Rightarrow>
          (case gate c of
             None \<Rightarrow> (Panicked nilDereference, st)
           | Some a \<Rightarrow>
               (terminal lvl msg,
                if Enabled (levels st a) lvl
                then MultiWrite (syncer c) (EncodeEntry (encoder c) (clock st) lvl msg fs) st
                else st)))"

definition Debugw :: "SugaredLogger option \<Rightarrow> string \<Rightarrow> fields \<Rightarrow> world \<Rightarrow> status \<times> world" where
  "Debugw s msg keyvals = sugar_log s DebugLevel msg keyvals"

definition Infow :: "SugaredLogger option \<Rightarrow> string \<Rightarrow> fields \<Rightarrow> world \<Rightarrow> status \<times> world" where
  "Infow s msg keyvals = sugar_log s InfoLevel msg keyvals"

definition Warnw :: "SugaredLogger option \<Rightarrow> string \<Rightarrow> fields \<Rightarrow> world \<Rightarrow> status \<times> world" where
  "Warnw s msg keyvals = sugar_log s WarnLevel msg keyvals"

definition Errorw :: "SugaredLogger option \<Rightarrow> string \<Rightarrow> fields \<Rightarrow> world \<Rightarrow> status \<times> world" where
  "Errorw s msg keyvals = sugar_log s ErrorLevel msg keyvals"

definition Panicw :: "SugaredLogger option \<Rightarrow> string \<Rightarrow> fields \<Rightarrow> world \<Rightarrow> status \<times> world" where
  "Panicw s msg keyvals = sugar_log s PanicLevel msg keyvals"

definition Fatalw :: "SugaredLogger option \<Rightarrow> string \<Rightarrow> fields \<Rightarrow> world \<Rightarrow> status \<times> world" where
  "Fatalw s msg keyvals = sugar_log s FatalLevel msg keyvals"

definition sugar_Debugf ::
  "env \<Rightarrow> SugaredLogger option \<Rightarrow> string \<Rightarrow> string list \<Rightarrow> world \<Rightarrow> status \<times> world" where
  "sugar_Debugf env s format args = sugar_log s DebugLevel (Sprintf env format args) []"

definition sugar_Infof ::
  "env \<Rightarrow> SugaredLogger option \<Rightarrow> string \<Rightarrow> string list \<Rightarrow> world \<Rightarrow> status \<times> world" where
  "sugar_Infof env s format args = sugar_log s InfoLevel (Sprintf env format args) []"

definition sugar_With :: "SugaredLogger option \<Rightarrow> fields \<Rightarrow> failure + SugaredLogger" where
  "sugar_With s keyvals =
     (case s of
        None \<Rightarrow> Inl (GoPanic nilDereference)
      | Some c \<Rightarrow> Inr (c\<lparr>encoder := (encoder c)\<lparr>bound := bound (encoder c) @ keyvals\<rparr>\<rparr>))"

text \<open>
  Modelled from the spec: \<^verbatim>\<open>zap.Config\<close> with \<^verbatim>\<open>zap.NewProductionConfig\<close> and
  \<^verbatim>\<open>Config.Build\<close>, which are not under src/. Section 6: the encodings are json and
  console, the time is rendered as ISO-8601 and the level capitalized once
  \<^verbatim>\<open>NewLogger\<close> has set the two encoders; section 7: an encoder build failure fails the
  constructor with an error.
  \<open>Build\<close> takes the core that the \<^verbatim>\<open>zap.WrapCore\<close> option puts in place of the
  configuration's own and the \<^verbatim>\<open>zap.Fields\<close> that are added to it.
\<close>

record Config =
  Encoding :: string
  DisableCaller :: bool
  EncoderConfig :: EncoderConfig

definition NewProductionConfig :: Config where
  "NewProductionConfig =
     \<lparr>Encoding = ''json'', DisableCaller = False,
      EncoderConfig = \<lparr>LevelKey = ''level'', MessageKey = ''msg'', TimeKey = ''ts'',
                       EncodeTime = EpochTimeEncoder, EncodeLevel = LowercaseLevelEncoder\<rparr>\<rparr>"

definition Build :: "Config \<Rightarrow> ioCore \<Rightarrow> fields \<Rightarrow> failure + SugaredLogger" where
  "Build cfg core fs =
     (if Encoding cfg = ''json'' \<or> Encoding cfg = ''console''
      then Inr (core\<lparr>encoder := (encoder core)\<lparr>bound := bound (encoder core) @ fs\<rparr>\<rparr>)
      else Inl (GoError (''no encoder registered for name '' @ Encoding cfg)))"

section \<open>log.go: configuration and options\<close>

record config =
  encoding :: string
  logLevel :: string
  logPath :: string
  rotationSize :: int
  rotationCount :: int
  syslogConn :: string
  syslogProtocol :: string
  out :: "nat option"
  instanceID :: string

text \<open>
  The \<^verbatim>\<open>logger\<close> struct. The embedded \<^verbatim>\<open>*zap.SugaredLogger\<close> and the
  \<^verbatim>\<open>*lumberjack.Logger\<close> are pointers (\<open>None\<close> is nil). The \<^verbatim>\<open>*config\<close> is kept
  by value: it is written only by the options, inside \<^verbatim>\<open>NewLogger\<close>.
\<close>

record logger =
  SugaredLogger :: "SugaredLogger option"
  rotator :: "nat option"
  level :: AtomicLevel
  config :: config

type_synonym Option = "logger \<Rightarrow> logger"

definition WithSyslog :: "string \<Rightarrow> string \<Rightarrow> Option" where
  "WithSyslog conn protocol =
     (\<lambda>log. log\<lparr>config := (config log)\<lparr>syslogConn := conn, syslogProtocol := protocol\<rparr>\<rparr>)"

definition WithOutput :: "nat option \<Rightarrow> Option" where
  "WithOutput w = (\<lambda>log. log\<lparr>config := (config log)\<lparr>out := w\<rparr>\<rparr>)"

definition WithLogLevel :: "string \<Rightarrow> Option" where
  "WithLogLevel lv = (\<lambda>log. log\<lparr>config := (config log)\<lparr>logLevel := lv\<rparr>\<rparr>)"

definition WithEncoding :: "string \<Rightarrow> Option" where
  "WithEncoding ec = (\<lambda>log. log\<lparr>config := (config log)\<lparr>encoding := defaultEncoding\<rparr>\<rparr>)"

definition WithLogFile :: "string \<Rightarrow> Option" where
  "WithLogFile filePath = (\<lambda>log. log\<lparr>config := (config log)\<lparr>logPath := filePath\<rparr>\<rparr>)"

definition WithRotationSize :: "int \<Rightarrow> Option" where
  "WithRotationSize sz = (\<lambda>log. log\<lparr>config := (config log)\<lparr>rotationSize := sz\<rparr>\<rparr>)"

definition WithRotationCount :: "int \<Rightarrow> Option" where
  "WithRotationCount count = (\<lambda>log. log\<lparr>config := (config log)\<lparr>rotationCount := count\<rparr>\<rparr>)"

definition WithInstanceID :: "string \<Rightarrow> Option" where
  "WithInstanceID iid = (\<lambda>log. log\<lparr>config := (config log)\<lparr>instanceID := iid\<rparr>\<rparr>)"

section \<open>log.go: construction\<close>

definition getLogRotator :: "config \<Rightarrow> world \<Rightarrow> nat \<times> world" where
  "getLogRotator conf st =
     (nextRotator st,
      st\<lparr>rotators := (rotators st)(nextRotator st :=
             \<lparr>Filename = logPath conf, MaxSize = rotationSize conf,
              MaxBackups = rotationCount conf, LocalTime = True, Compress = False\<rparr>),
         nextRotator := Suc (nextRotator st)\<rparr>)"

definition getZapLogLevel :: "string \<Rightarrow> failure + Level" where
  "getZapLogLevel lv =
     (if lv = ''debug'' then Inr DebugLevel
      else if lv = ''info'' then Inr InfoLevel
      else if lv = ''warn'' then Inr WarnLevel
      else if lv = ''error'' then Inr ErrorLevel
      else if lv = ''panic'' then Inr PanicLevel
      else if lv = ''fatal'' then Inr FatalLevel
      else Inl (GoPanic (''unsupported log level '' @ lv @
        ''. debug, info, warn, error, panic and fatal are the only supported loglevels.'')))"

text \<open>
  \<^verbatim>\<open>withWrapCore\<close> returns the option that replaces the core; the model returns the
  core it puts in place.
\<close>

definition withWrapCore :: "writer list \<Rightarrow> Config \<Rightarrow> AtomicLevel \<Rightarrow> failure + ioCore" where
  "withWrapCore ws conf al =
     (if Encoding conf = ''json'' then Inr (NewCore (NewJSONEncoder (EncoderConfig conf)) ws al)
      else if Encoding conf = ''console''
      then Inr (NewCore (NewConsoleEncoder (EncoderConfig conf)) ws al)
      else Inl (GoPanic ''unknown encoding''))"

text \<open>syslog_unix.go: \<^verbatim>\<open>GetSyslog\<close> returns the dialled writer, or the error of the dial.\<close>

definition GetSyslog :: "env \<Rightarrow> string \<Rightarrow> string \<Rightarrow> string \<Rightarrow> failure + writer option" where
  "GetSyslog env protocol conn tag =
     (case Dial env protocol conn tag of
        Inl err \<Rightarrow> Inl (GoError err)
      | Inr h \<Rightarrow> Inr (Some (Syslog h)))"

text \<open>The logger and its configuration as \<^verbatim>\<open>NewLogger\<close> first creates them.\<close>

definition newConfig :: "env \<Rightarrow> string \<Rightarrow> config" where
  "newConfig env app =
     \<lparr>encoding = defaultEncoding, logLevel = defaultLevel,
      logPath = logFilePathFormat (ToLower env app),
      rotationSize = maxsize, rotationCount = maxcount,
      syslogConn = [], syslogProtocol = [], out = None,
      instanceID = defaultInstanceID\<rparr>"

definition emptyLogger :: "env \<Rightarrow> string \<Rightarrow> logger" where
  "emptyLogger env app =
     \<lparr>SugaredLogger = None, rotator = None, level = None, config = newConfig env app\<rparr>"

text \<open>The loop \<^verbatim>\<open>for _, opt := range opts { opt(l) }\<close>.\<close>

definition applyOptions :: "Option list \<Rightarrow> logger \<Rightarrow> logger" where
  "applyOptions opts l = fold (\<lambda>opt l. opt l) opts l"

text \<open>
  The production configuration with the fields \<^verbatim>\<open>NewLogger\<close> overrides, in the order
  of log.go:146-155.
\<close>

definition loggerConfig :: "config \<Rightarrow> Config" where
  "loggerConfig conf =
     (let cfg = NewProductionConfig\<lparr>DisableCaller := True\<rparr>;
          cfg = cfg\<lparr>EncoderConfig := (EncoderConfig cfg)\<lparr>LevelKey := levelKey\<rparr>\<rparr>;
          cfg = cfg\<lparr>EncoderConfig := (EncoderConfig cfg)\<lparr>MessageKey := messageKey\<rparr>\<rparr>;
          cfg = cfg\<lparr>EncoderConfig := (EncoderConfig cfg)\<lparr>TimeKey := timeKey\<rparr>\<rparr>;
          cfg = cfg\<lparr>EncoderConfig := (EncoderConfig cfg)\<lparr>EncodeTime := ISO8601TimeEncoder\<rparr>\<rparr>;
          cfg = cfg\<lparr>EncoderConfig := (EncoderConfig cfg)\<lparr>EncodeLevel := CapitalLevelEncoder\<rparr>\<rparr>
      in cfg\<lparr>Encoding := encoding conf\<rparr>)"

text \<open>The write targets, in the order \<^verbatim>\<open>NewLogger\<close> appends them.\<close>

definition syslogTargets :: "env \<Rightarrow> string \<Rightarrow> string \<Rightarrow> config \<Rightarrow> failure + writer list" where
  "syslogTargets env app version conf =
     (if syslogConn conf \<noteq> []
      then (case GetSyslog env (syslogProtocol conf) (syslogConn conf) (app @ ''-'' @ version) of
              Inl err \<Rightarrow> Inl err
            | Inr None \<Rightarrow> Inr []
            | Inr (Some w) \<Rightarrow> Inr [w])
      else Inr [])"

definition outTargets :: "config \<Rightarrow> writer list" where
  "outTargets conf = (case out conf of None \<Rightarrow> [] | Some w \<Rightarrow> [Out w])"

text \<open>
  \<^verbatim>\<open>NewLogger\<close>. A panic or a returned error is \<open>Inl\<close>. The deferred \<^verbatim>\<open>sl.Sync()\<close>
  flushes and adds nothing to what the sinks have received.
\<close>

definition NewLogger ::
  "env \<Rightarrow> string \<Rightarrow> string \<Rightarrow> Option list \<Rightarrow> world \<Rightarrow> failure + (logger \<times> world)" where
  "NewLogger env app version opts st =
     (let l = applyOptions opts (emptyLogger env app) in
      case getZapLogLevel (logLevel (config l)) of
        Inl p \<Rightarrow> Inl p
      | Inr zapLogLevel \<Rightarrow>
          (let (al, st1) = NewAtomicLevelAt zapLogLevel st;
               cfg = loggerConfig (config l)
           in case syslogTargets env app version (config l) of
                Inl err \<Rightarrow> Inl err
              | Inr ts \<Rightarrow>
                  (let ts1 = ts @ outTargets (config l);
                       (lr, ts2, st2) =
                         (if encoding (config l) = defaultEncoding
                          then (let (a, st') = getLogRotator (config l) st1
                                in (Some a, ts1 @ [Rotator a], st'))
                          else (None, ts1, st1))
                   in case withWrapCore ts2 cfg al of
                        Inl p \<Rightarrow> Inl p
                      | Inr core \<Rightarrow>
                          (case Build cfg core
                                  [(''service'', app), (''version'', version),
                                   (''instance_id'', instanceID (config l))] of
                             Inl err \<Rightarrow> Inl err
                           | Inr sl \<Rightarrow>
                               Inr (l\<lparr>SugaredLogger := Some sl, level := al,
                                      rotator := (case lr of None \<Rightarrow> rotator l | Some a \<Rightarrow> Some a)\<rparr>,
                                    st2)))))"

section \<open>log.go: the logging surface\<close>

definition Debug :: "logger \<Rightarrow> string \<Rightarrow> fields \<Rightarrow> world \<Rightarrow> status \<times> world" where
  "Debug l msg keyvals = Debugw (SugaredLogger l) msg keyvals"

definition Info :: "logger \<Rightarrow> string \<Rightarrow> fields \<Rightarrow> world \<Rightarrow> status \<times> world" where
  "Info l msg keyvals = Infow (SugaredLogger l) msg keyvals"

definition Warn :: "logger \<Rightarrow> string \<Rightarrow> fields \<Rightarrow> world \<Rightarrow> status \<times> world" where
  "Warn l msg keyvals = Warnw (SugaredLogger l) msg keyvals"

definition Error :: "logger \<Rightarrow> string \<Rightarrow> fields \<Rightarrow> world \<Rightarrow> status \<times> world" where
  "Error l msg keyvals = Errorw (SugaredLogger l) msg keyvals"

definition Panic :: "logger \<Rightarrow> string \<Rightarrow> fields \<Rightarrow> world \<Rightarrow> status \<times> world" where
  "Panic l msg keyvals = Panicw (SugaredLogger l) msg keyvals"

definition Fatal :: "logger \<Rightarrow> string \<Rightarrow> fields \<Rightarrow> world \<Rightarrow> status \<times> world" where
  "Fatal l msg keyvals = Fatalw (SugaredLogger l) msg keyvals"

definition Debugf :: "env \<Rightarrow> logger \<Rightarrow> string \<Rightarrow> string list \<Rightarrow> world \<Rightarrow> status \<times> world" where
  "Debugf env l format args = sugar_Debugf env (SugaredLogger l) format args"

definition Printf :: "env \<Rightarrow> logger \<Rightarrow> string \<Rightarrow> string list \<Rightarrow> world \<Rightarrow> status \<times> world" where
  "Printf env l format args = sugar_Infof env (SugaredLogger l) format args"

definition With :: "logger \<Rightarrow> fields \<Rightarrow> failure + logger" where
  "With l keyvals =
     (case sugar_With (SugaredLogger l) keyvals of
        Inl p \<Rightarrow> Inl p
      | Inr s \<Rightarrow> Inr \<lparr>SugaredLogger = Some s, rotator = None, level = level l, config = config l\<rparr>)"

definition unsupportedLevelWarning :: string where
  "unsupportedLevelWarning =
     ''can'' @ [CHR 0x27] @ ''t change to a unsupported log level. Only debug, info, warn, error, panic and fatal levels are supported.''"

definition SetLogLevel :: "logger \<Rightarrow> string \<Rightarrow> world \<Rightarrow> status \<times> world" where
  "SetLogLevel l lv st =
     (if lv = ''debug'' then SetLevel (level l) DebugLevel st
      else if lv = ''info'' then SetLevel (level l) InfoLevel st
      else if lv = ''warn'' then SetLevel (level l) WarnLevel st
      else if lv = ''error'' then SetLevel (level l) ErrorLevel st
      else if lv = ''panic'' then SetLevel (level l) PanicLevel st
      else if lv = ''fatal'' then SetLevel (level l) FatalLevel st
      else Warn l unsupportedLevelWarning [] st)"

definition SetLogRotationSize :: "logger \<Rightarrow> int \<Rightarrow> world \<Rightarrow> status \<times> world" where
  "SetLogRotationSize l sz st =
     (case rotator l of
        None \<Rightarrow> (Panicked nilDereference, st)
      | Some a \<Rightarrow> (Returned, st\<lparr>rotators := (rotators st)(a := (rotators st a)\<lparr>MaxSize := sz\<rparr>)\<rparr>))"

definition SetLogRotationCount :: "logger \<Rightarrow> int \<Rightarrow> world \<Rightarrow> status \<times> world" where
  "SetLogRotationCount l count st =
     (case rotator l of
        None \<Rightarrow> (Panicked nilDereference, st)
      | Some a \<Rightarrow> (Returned, st\<lparr>rotators := (rotators st)(a := (rotators st a)\<lparr>MaxBackups := count\<rparr>)\<rparr>))"

section \<open>Vocabulary of the properties\<close>

text \<open>The level names the package supports.\<close>

definition supportedLevels :: "string set" where
  "supportedLevels = {''debug'', ''info'', ''warn'', ''error'', ''panic'', ''fatal''}"

text \<open>The options a caller can build: the results of the eight exported functions.\<close>

inductive apiOption :: "Option \<Rightarrow> bool" where
  api_WithSyslog: "apiOption (WithSyslog conn protocol)"
| api_WithOutput: "apiOption (WithOutput w)"
| api_WithLogLevel: "apiOption (WithLogLevel lv)"
| api_WithEncoding: "apiOption (WithEncoding ec)"
| api_WithLogFile: "apiOption (WithLogFile filePath)"
| api_WithRotationSize: "apiOption (WithRotationSize sz)"
| api_WithRotationCount: "apiOption (WithRotationCount count)"
| api_WithInstanceID: "apiOption (WithInstanceID iid)"

text \<open>The facades of a logger: the logger itself and whatever \<open>With\<close> returns on one.\<close>

inductive derived :: "logger \<Rightarrow> logger \<Rightarrow> bool" for root :: logger where
  derived_self: "derived root root"
| derived_With: "derived root d \<Longrightarrow> With d keyvals = Inr d' \<Longrightarrow> derived root d'"

text \<open>The threshold a logger's calls consult, and the sinks they write to.\<close>

definition threshold :: "logger \<Rightarrow> world \<Rightarrow> Level option" where
  "threshold l st =
     (case SugaredLogger l of
        None \<Rightarrow> None
      | Some c \<Rightarrow> (case gate c of None \<Rightarrow> None | Some a \<Rightarrow> Some (levels st a)))"

definition sinks :: "logger \<Rightarrow> writer list" where
  "sinks l = (case SugaredLogger l of None \<Rightarrow> [] | Some c \<Rightarrow> syncer c)"

text \<open>The six leveled methods, selected by their severity.\<close>

fun logAt :: "Level \<Rightarrow> logger \<Rightarrow> string \<Rightarrow> fields \<Rightarrow> world \<Rightarrow> status \<times> world" where
  "logAt DebugLevel = Debug"
| "logAt InfoLevel = Info"
| "logAt WarnLevel = Warn"
| "logAt ErrorLevel = Error"
| "logAt PanicLevel = Panic"
| "logAt FatalLevel = Fatal"

text \<open>The value a record carries under a key.\<close>

definition field :: "Entry \<Rightarrow> string \<Rightarrow> string option" where
  "field e k = map_of (pairs e) k"

text \<open>
  What a JSON decoder reads under a key: of a key that a record repeats, the last pair
  (as \<^verbatim>\<open>json.Unmarshal\<close> in log_test.go does).
\<close>

definition decoded :: "Entry \<Rightarrow> string \<Rightarrow> string option" where
  "decoded e k = map_of (rev (pairs e)) k"

text \<open>The facades of a logger together with the fields that \<open>With\<close> has bound on the way.\<close>

inductive bindsFields :: "logger \<Rightarrow> fields \<Rightarrow> logger \<Rightarrow> bool" for root :: logger where
  binds_none: "bindsFields root [] root"
| binds_With: "bindsFields root fs d \<Longrightarrow> With d keyvals = Inr d' \<Longrightarrow> bindsFields root (fs @ keyvals) d'"

subsection \<open>A concrete environment and world, for evaluation\<close>

definition lowerASCII :: "char \<Rightarrow> char" where
  "lowerASCII c =
     (case map_of (zip ''ABCDEFGHIJKLMNOPQRSTUVWXYZ'' ''abcdefghijklmnopqrstuvwxyz'') c of
        None \<Rightarrow> c
      | Some d \<Rightarrow> d)"

definition exampleEnv :: env where
  "exampleEnv =
     \<lparr>ToLower = map lowerASCII, Dial = (\<lambda>protocol conn tag. Inr 0),
      Sprintf = (\<lambda>format args. format @ concat args)\<rparr>"

definition exampleWorld :: world where
  "exampleWorld =
     \<lparr>levels = (\<lambda>a. InfoLevel), nextLevel = 0,
      rotators = (\<lambda>a. \<lparr>Filename = [], MaxSize = 0, MaxBackups = 0,
                        LocalTime = False, Compress = False\<rparr>),
      nextRotator = 0, written = (\<lambda>w. []),
      clock = (\<lambda>te. case te of EpochTimeEncoder \<Rightarrow> ''1704067200''
                           | ISO8601TimeEncoder \<Rightarrow> ''2024-01-01T00:00:00.000Z'')\<rparr>"

text \<open>The encoder keys that \<^verbatim>\<open>NewLogger\<close> configures.\<close>

definition stdKeys :: EncoderConfig where
  "stdKeys = \<lparr>LevelKey = levelKey, MessageKey = messageKey, TimeKey = timeKey,
              EncodeTime = ISO8601TimeEncoder, EncodeLevel = CapitalLevelEncoder\<rparr>"

text \<open>
  The logger that \<^verbatim>\<open>NewLogger("svc", "1.0", WithLogLevel("error"), WithOutput(w))\<close>
  returns in the example world, and the world it leaves.
\<close>

definition quietLogger :: logger where
  "quietLogger =
     \<lparr>SugaredLogger =
        Some \<lparr>gate = Some 0,
              encoder = \<lparr>kind = ''json'',
                         keys = \<lparr>LevelKey = ''level'', MessageKey = ''msg'', TimeKey = ''time'',
                                 EncodeTime = ISO8601TimeEncoder,
                                 EncodeLevel = CapitalLevelEncoder\<rparr>,
                         bound = [(''service'', ''svc''), (''version'', ''1.0''),
                                  (''instance_id'', ''instance_1'')]\<rparr>,
              syncer = [Out 0, Rotator 0]\<rparr>,
      rotator = Some 0, level = Some 0,
      config = \<lparr>encoding = ''json'', logLevel = ''error'', logPath = ''/logs/svc.log'',
                rotationSize = 20, rotationCount = 3, syslogConn = [], syslogProtocol = [],
                out = Some 0, instanceID = ''instance_1''\<rparr>\<rparr>"

definition quietWorld :: world where
  "quietWorld =
     exampleWorld
       \<lparr>levels := (levels exampleWorld)(0 := ErrorLevel), nextLevel := 1,
        rotators := (rotators exampleWorld)(0 :=
          \<lparr>Filename = ''/logs/svc.log'', MaxSize = 20, MaxBackups = 3,
           LocalTime = True, Compress = False\<rparr>),
        nextRotator := 1\<rparr>"

text \<open>
  The logger that \<^verbatim>\<open>NewLogger("myservice", "1.0.0", WithOutput(w), WithInstanceID("my_instance"))\<close>
  returns in the example world, the world it leaves, the facade that
  \<^verbatim>\<open>With("instance_id", "x")\<close> derives from it, and the record of \<^verbatim>\<open>Info("m")\<close> on that
  facade.
\<close>

definition taggedLogger :: logger where
  "taggedLogger =
     \<lparr>SugaredLogger =
        Some \<lparr>gate = Some 0,
              encoder = \<lparr>kind = ''json'',
                         keys = \<lparr>LevelKey = ''level'', MessageKey = ''msg'', TimeKey = ''time'',
                                 EncodeTime = ISO8601TimeEncoder,
                                 EncodeLevel = CapitalLevelEncoder\<rparr>,
                         bound = [(''service'', ''myservice''), (''version'', ''1.0.0''),
                                  (''instance_id'', ''my_instance'')]\<rparr>,
              syncer = [Out 0, Rotator 0]\<rparr>,
      rotator = Some 0, level = Some 0,
      config = \<lparr>encoding = ''json'', logLevel = ''info'', logPath = ''/logs/myservice.log'',
                rotationSize = 20, rotationCount = 3, syslogConn = [], syslogProtocol = [],
                out = Some 0, instanceID = ''my_instance''\<rparr>\<rparr>"

definition taggedWorld :: world where
  "taggedWorld =
     exampleWorld
       \<lparr>levels := (levels exampleWorld)(0 := InfoLevel), nextLevel := 1,
        rotators := (rotators exampleWorld)(0 :=
          \<lparr>Filename = ''/logs/myservice.log'', MaxSize = 20, MaxBackups = 3,
           LocalTime = True, Compress = False\<rparr>),
        nextRotator := 1\<rparr>"

definition relabelledLogger :: logger where
  "relabelledLogger =
     \<lparr>SugaredLogger =
        Some \<lparr>gate = Some 0,
              encoder = \<lparr>kind = ''json'',
                         keys = \<lparr>LevelKey = ''level'', MessageKey = ''msg'', TimeKey = ''time'',
                                 EncodeTime = ISO8601TimeEncoder,
                                 EncodeLevel = CapitalLevelEncoder\<rparr>,
                         bound = [(''service'', ''myservice''), (''version'', ''1.0.0''),
                                  (''instance_id'', ''my_instance''), (''instance_id'', ''x'')]\<rparr>,
              syncer = [Out 0, Rotator 0]\<rparr>,
      rotator = None, level = Some 0,
      config = \<lparr>encoding = ''json'', logLevel = ''info'', logPath = ''/logs/myservice.log'',
                rotationSize = 20, rotationCount = 3, syslogConn = [], syslogProtocol = [],
                out = Some 0, instanceID = ''my_instance''\<rparr>\<rparr>"

definition relabelledEntry :: Entry where
  "relabelledEntry =
     \<lparr>encodedAs = ''json'',
      pairs = [(''time'', ''2024-01-01T00:00:00.000Z''), (''level'', ''INFO''), (''msg'', ''m''),
               (''service'', ''myservice''), (''version'', ''1.0.0''),
               (''instance_id'', ''my_instance''), (''instance_id'', ''x'')]\<rparr>"

section \<open>Facts about the model\<close>

subsection \<open>The fan-out and the options\<close>

lemmas option_defs = WithSyslog_def WithOutput_def WithLogLevel_def WithEncoding_def
        WithLogFile_def WithRotationSize_def WithRotationCount_def WithInstanceID_def

lemma written_MultiWrite:
  "distinct ws \<Longrightarrow>
   written (MultiWrite ws e st) w = (if w \<in> set ws then written st w @ [e] else written st w)"
  by (induction ws arbitrary: st) (auto simp: Write_def)

lemma MultiWrite_rest:
  "levels (MultiWrite ws e st) = levels st \<and> rotators (MultiWrite ws e st) = rotators st \<and>
   clock (MultiWrite ws e st) = clock st \<and> nextLevel (MultiWrite ws e st) = nextLevel st \<and>
   nextRotator (MultiWrite ws e st) = nextRotator st"
  by (induction ws arbitrary: st) (auto simp: Write_def)

lemma applyOptions_Nil: "applyOptions [] l = l"
  by (simp add: applyOptions_def)

lemma applyOptions_Cons: "applyOptions (opt # opts) l = applyOptions opts (opt l)"
  by (simp add: applyOptions_def)

lemma applyOptions_append: "applyOptions (xs @ ys) l = applyOptions ys (applyOptions xs l)"
  by (simp add: applyOptions_def)

lemma apiOption_encoding:
  "apiOption opt \<Longrightarrow> encoding (config l) = defaultEncoding \<Longrightarrow> encoding (config (opt l)) = defaultEncoding"
  by (induction rule: apiOption.induct) (simp_all add: option_defs)

lemma applyOptions_encoding:
  "\<forall>opt\<in>set opts. apiOption opt \<Longrightarrow> encoding (config l) = defaultEncoding \<Longrightarrow>
   encoding (config (applyOptions opts l)) = defaultEncoding"
  by (induction opts arbitrary: l) (simp_all add: applyOptions_Nil applyOptions_Cons apiOption_encoding)

subsection \<open>What a successful construction returns\<close>

lemma syslogTargets_distinct:
  "syslogTargets env app version conf = Inr ts \<Longrightarrow> ts = [] \<or> (\<exists>h. ts = [Syslog h])"
  by (auto simp: syslogTargets_def GetSyslog_def split: if_splits sum.splits option.splits)

lemma outTargets_cases: "outTargets conf = [] \<or> (\<exists>w. outTargets conf = [Out w])"
  by (auto simp: outTargets_def split: option.splits)

lemma NewLogger_core:
  assumes "NewLogger env app version opts st = Inr (l, st')"
  shows "\<exists>a ts. SugaredLogger l =
            Some \<lparr>gate = Some a,
                  encoder = \<lparr>kind = encoding (config l), keys = stdKeys,
                             bound = [(''service'', app), (''version'', version),
                                      (''instance_id'', instanceID (config l))]\<rparr>,
                  syncer = ts\<rparr> \<and>
          level l = Some a \<and> distinct ts \<and>
          config l = config (applyOptions opts (emptyLogger env app)) \<and>
          written st' = written st"
proof -
  define l0 where "l0 = applyOptions opts (emptyLogger env app)"
  from assms obtain z where z: "getZapLogLevel (logLevel (config l0)) = Inr z"
    by (auto simp: NewLogger_def l0_def Let_def split: sum.splits)
  from assms z obtain ts where ts: "syslogTargets env app version (config l0) = Inr ts"
    by (auto simp: NewLogger_def l0_def Let_def split: sum.splits prod.splits)
  have d: "distinct (ts @ outTargets (config l0))" "\<And>a. Rotator a \<notin> set (ts @ outTargets (config l0))"
    using syslogTargets_distinct[OF ts] outTargets_cases[of "config l0"] by auto
  show ?thesis
    using assms z ts d
    by (auto simp: NewLogger_def l0_def[symmetric] Let_def NewAtomicLevelAt_def getLogRotator_def
          withWrapCore_def Build_def NewCore_def NewJSONEncoder_def NewConsoleEncoder_def
          loggerConfig_def NewProductionConfig_def stdKeys_def defaultEncoding_def
        split: sum.splits prod.splits if_splits)
qed


subsection \<open>The facades of a built logger\<close>

lemma derived_core:
  assumes "derived root l" and "SugaredLogger root = Some c0"
  shows "\<exists>extra. SugaredLogger l = Some (c0\<lparr>encoder := (encoder c0)\<lparr>bound := bound (encoder c0) @ extra\<rparr>\<rparr>) \<and>
           level l = level root \<and> config l = config root"
  using assms
proof (induction rule: derived.induct)
  case derived_self
  have "c0 = c0\<lparr>encoder := (encoder c0)\<lparr>bound := bound (encoder c0) @ []\<rparr>\<rparr>" by simp
  with derived_self show ?case by metis
next
  case (derived_With d keyvals d')
  then obtain extra where
    e: "SugaredLogger d = Some (c0\<lparr>encoder := (encoder c0)\<lparr>bound := bound (encoder c0) @ extra\<rparr>\<rparr>)"
    and lv: "level d = level root" and cf: "config d = config root"
    by blast
  from derived_With.hyps(2) e lv cf
  have "SugaredLogger d' =
          Some (c0\<lparr>encoder := (encoder c0)\<lparr>bound := bound (encoder c0) @ (extra @ keyvals)\<rparr>\<rparr>) \<and>
        level d' = level root \<and> config d' = config root"
    by (auto simp: With_def sugar_With_def split: sum.splits)
  then show ?case by blast
qed

lemma facade_core:
  assumes "NewLogger env app version opts st0 = Inr (root, st1)" and "derived root l"
  shows "\<exists>a ts extra. SugaredLogger l =
            Some \<lparr>gate = Some a,
                  encoder = \<lparr>kind = encoding (config root), keys = stdKeys,
                             bound = [(''service'', app), (''version'', version),
                                      (''instance_id'', instanceID (config root))] @ extra\<rparr>,
                  syncer = ts\<rparr> \<and>
          level l = Some a \<and> distinct ts \<and> sinks l = ts \<and> sinks root = ts \<and>
          level root = Some a \<and> config l = config root \<and>
          (\<forall>st. threshold l st = Some (levels st a) \<and> threshold root st = Some (levels st a))"
proof -
  from NewLogger_core[OF assms(1)] obtain a ts where
    r: "SugaredLogger root =
            Some \<lparr>gate = Some a,
                  encoder = \<lparr>kind = encoding (config root), keys = stdKeys,
                             bound = [(''service'', app), (''version'', version),
                                      (''instance_id'', instanceID (config root))]\<rparr>,
                  syncer = ts\<rparr>"
    and lv: "level root = Some a" and d: "distinct ts"
    by blast
  from derived_core[OF assms(2) r] obtain extra where
    "SugaredLogger l =
       Some \<lparr>gate = Some a,
             encoder = \<lparr>kind = encoding (config root), keys = stdKeys,
                        bound = [(''service'', app), (''version'', version),
                                 (''instance_id'', instanceID (config root))] @ extra\<rparr>,
             syncer = ts\<rparr>"
    and "level l = level root" and "config l = config root"
    by auto
  with r lv d show ?thesis
    by (auto simp: sinks_def threshold_def)
qed

lemma logAt_sugar: "logAt S l msg keyvals st = sugar_log (SugaredLogger l) S msg keyvals st"
  by (cases S)
     (simp_all add: Debug_def Info_def Warn_def Error_def Panic_def Fatal_def
        Debugw_def Infow_def Warnw_def Errorw_def Panicw_def Fatalw_def)

lemma sugar_log_core:
  "sugar_log (Some \<lparr>gate = Some a, encoder = enc, syncer = ts\<rparr>) S msg fs st =
     (terminal S msg,
      if rank (levels st a) \<le> rank S
      then MultiWrite ts (EncodeEntry enc (clock st) S msg fs) st else st)"
  by (simp add: sugar_log_def Enabled_def)

subsection \<open>Evaluation on the example world\<close>

lemmas eval_defs =
  NewLogger_def applyOptions_def emptyLogger_def newConfig_def option_defs
  getZapLogLevel_def NewAtomicLevelAt_def loggerConfig_def NewProductionConfig_def
  syslogTargets_def GetSyslog_def outTargets_def getLogRotator_def withWrapCore_def
  NewCore_def NewJSONEncoder_def NewConsoleEncoder_def Build_def
  defaultEncoding_def defaultLevel_def defaultInstanceID_def maxsize_def maxcount_def
  logFilePathFormat_def levelKey_def messageKey_def timeKey_def

lemma quiet_eval:
  "NewLogger exampleEnv ''svc'' ''1.0'' [WithLogLevel ''error'', WithOutput (Some 0)] exampleWorld
     = Inr (quietLogger, quietWorld)"
  by (simp add: eval_defs quietLogger_def quietWorld_def exampleEnv_def exampleWorld_def
        lowerASCII_def Let_def)

subsection \<open>Construction, step by step\<close>

lemma NewLogger_plain:
  assumes "encoding (config l0) = defaultEncoding" and "syslogConn (config l0) = []"
    and "getZapLogLevel (logLevel (config l0)) = Inr z"
    and "l0 = applyOptions opts (emptyLogger env app)"
  shows "NewLogger env app version opts st =
     Inr (l0\<lparr>SugaredLogger :=
               Some \<lparr>gate = Some (nextLevel st),
                     encoder = \<lparr>kind = ''json'', keys = stdKeys,
                                bound = [(''service'', app), (''version'', version),
                                         (''instance_id'', instanceID (config l0))]\<rparr>,
                     syncer = outTargets (config l0) @ [Rotator (nextRotator st)]\<rparr>,
              level := Some (nextLevel st), rotator := Some (nextRotator st)\<rparr>,
          st\<lparr>levels := (levels st)(nextLevel st := z), nextLevel := Suc (nextLevel st),
             rotators := (rotators st)(nextRotator st :=
               \<lparr>Filename = logPath (config l0), MaxSize = rotationSize (config l0),
                MaxBackups = rotationCount (config l0), LocalTime = True, Compress = False\<rparr>),
             nextRotator := Suc (nextRotator st)\<rparr>)"
  using assms(1-3) unfolding assms(4)
  by (simp add: NewLogger_def Let_def NewAtomicLevelAt_def getLogRotator_def
          withWrapCore_def Build_def NewCore_def NewJSONEncoder_def
          loggerConfig_def NewProductionConfig_def stdKeys_def defaultEncoding_def
          syslogTargets_def)

lemma apiOption_logLevel:
  "apiOption opt \<Longrightarrow> (\<forall>x. opt \<noteq> WithLogLevel x) \<Longrightarrow> logLevel (config (opt l)) = logLevel (config l)"
proof (induction rule: apiOption.induct)
  case (api_WithLogLevel lv)
  then show ?case by blast
qed (simp_all add: option_defs)

lemma applyOptions_logLevel:
  "\<forall>opt\<in>set opts. apiOption opt \<and> (\<forall>x. opt \<noteq> WithLogLevel x) \<Longrightarrow>
   logLevel (config (applyOptions opts l)) = logLevel (config l)"
  by (induction opts arbitrary: l) (simp_all add: applyOptions_Nil applyOptions_Cons apiOption_logLevel)

lemma getZapLogLevel_unsupported:
  "lv \<notin> supportedLevels \<Longrightarrow>
   getZapLogLevel lv = Inl (GoPanic (''unsupported log level '' @ lv @
        ''. debug, info, warn, error, panic and fatal are the only supported loglevels.''))"
  by (simp add: getZapLogLevel_def supportedLevels_def)


lemma NewLogger_bad_level:
  "getZapLogLevel (logLevel (config (applyOptions opts (emptyLogger env app)))) = Inl p \<Longrightarrow>
   NewLogger env app version opts st = Inl p"
  by (simp add: NewLogger_def Let_def)

subsection \<open>What a log call on a facade does\<close>

lemma facade_log:
  assumes "NewLogger env app version opts st0 = Inr (root, st1)" and "derived root l"
  shows "\<exists>a extra. distinct (sinks l) \<and> sinks l = sinks root \<and> level l = Some a \<and>
           (\<forall>st. threshold l st = Some (levels st a) \<and> threshold root st = Some (levels st a)) \<and>
           (\<forall>S msg fs st. sugar_log (SugaredLogger l) S msg fs st =
              (terminal S msg,
               if rank (levels st a) \<le> rank S
               then MultiWrite (sinks l)
                      (EncodeEntry
                         \<lparr>kind = encoding (config root), keys = stdKeys,
                          bound = [(''service'', app), (''version'', version),
                                   (''instance_id'', instanceID (config root))] @ extra\<rparr>
                         (clock st) S msg fs) st
               else st))"
proof -
  from facade_core[OF assms] obtain a ts extra where
    c: "SugaredLogger l =
            Some \<lparr>gate = Some a,
                  encoder = \<lparr>kind = encoding (config root), keys = stdKeys,
                             bound = [(''service'', app), (''version'', version),
                                      (''instance_id'', instanceID (config root))] @ extra\<rparr>,
                  syncer = ts\<rparr>"
    and r: "level l = Some a" "distinct ts" "sinks l = ts" "sinks root = ts"
      "\<forall>st. threshold l st = Some (levels st a) \<and> threshold root st = Some (levels st a)"
    by blast
  have "distinct (sinks l) \<and> sinks l = sinks root \<and> level l = Some a \<and>
           (\<forall>st. threshold l st = Some (levels st a) \<and> threshold root st = Some (levels st a)) \<and>
           (\<forall>S msg fs st. sugar_log (SugaredLogger l) S msg fs st =
              (terminal S msg,
               if rank (levels st a) \<le> rank S
               then MultiWrite (sinks l)
                      (EncodeEntry
                         \<lparr>kind = encoding (config root), keys = stdKeys,
                          bound = [(''service'', app), (''version'', version),
                                   (''instance_id'', instanceID (config root))] @ extra\<rparr>
                         (clock st) S msg fs) st
               else st))"
    using r by (simp add: c sugar_log_core)
  then show ?thesis by blast
qed

lemma field_EncodeEntry:
  fixes enc :: Encoder
  assumes "keys enc = stdKeys"
  shows "field (EncodeEntry enc t S msg fs) levelKey = Some (CapitalString S)"
    and "field (EncodeEntry enc t S msg fs) messageKey = Some msg"
    and "field (EncodeEntry enc t S msg fs) timeKey = Some (t ISO8601TimeEncoder)"
    and "set fs \<subseteq> set (pairs (EncodeEntry enc t S msg fs))"
    and "set (bound enc) \<subseteq> set (pairs (EncodeEntry enc t S msg fs))"
    and "encodedAs (EncodeEntry enc t S msg fs) = kind enc"
  using assms
  by (auto simp: field_def EncodeEntry_def stdKeys_def levelKey_def messageKey_def timeKey_def)

lemma field_EncodeEntry_meta:
  "field (EncodeEntry \<lparr>kind = k, keys = stdKeys,
            bound = [(''service'', app), (''version'', version), (''instance_id'', iid)] @ extra\<rparr>
          t S msg fs) ''service'' = Some app"
  "field (EncodeEntry \<lparr>kind = k, keys = stdKeys,
            bound = [(''service'', app), (''version'', version), (''instance_id'', iid)] @ extra\<rparr>
          t S msg fs) ''version'' = Some version"
  "field (EncodeEntry \<lparr>kind = k, keys = stdKeys,
            bound = [(''service'', app), (''version'', version), (''instance_id'', iid)] @ extra\<rparr>
          t S msg fs) ''instance_id'' = Some iid"
  by (simp_all add: field_def EncodeEntry_def stdKeys_def levelKey_def messageKey_def timeKey_def)

lemma NewLogger_api:
  assumes "\<forall>opt\<in>set opts. apiOption opt"
  shows "Encoding (loggerConfig (config (applyOptions opts (emptyLogger env app)))) = ''json''"
    and "NewLogger env app version opts st \<noteq> Inl (GoPanic ''unknown encoding'')"
    and "NewLogger env app version opts st = Inr (l, st') \<Longrightarrow>
            encoding (config l) = ''json'' \<and>
            (\<exists>a. rotator l = Some a \<and> Rotator a \<in> set (sinks l)) \<and>
            (\<exists>c. SugaredLogger l = Some c \<and> kind (encoder c) = ''json'')"
proof -
  define l0 where "l0 = applyOptions opts (emptyLogger env app)"
  have enc: "encoding (config l0) = defaultEncoding"
    unfolding l0_def
    by (rule applyOptions_encoding[OF assms]) (simp add: emptyLogger_def newConfig_def)
  show "Encoding (loggerConfig (config (applyOptions opts (emptyLogger env app)))) = ''json''"
    using enc by (simp add: loggerConfig_def defaultEncoding_def l0_def)
  show "NewLogger env app version opts st \<noteq> Inl (GoPanic ''unknown encoding'')"
    using enc
    by (auto simp: NewLogger_def l0_def[symmetric] Let_def NewAtomicLevelAt_def
          getLogRotator_def withWrapCore_def Build_def loggerConfig_def defaultEncoding_def
          getZapLogLevel_def syslogTargets_def GetSyslog_def
        split: sum.splits prod.splits if_splits option.splits)
  show "encoding (config l) = ''json'' \<and>
            (\<exists>a. rotator l = Some a \<and> Rotator a \<in> set (sinks l)) \<and>
            (\<exists>c. SugaredLogger l = Some c \<and> kind (encoder c) = ''json'')"
    if "NewLogger env app version opts st = Inr (l, st')"
    using that enc
    by (auto simp: NewLogger_def l0_def[symmetric] Let_def NewAtomicLevelAt_def
          getLogRotator_def withWrapCore_def Build_def loggerConfig_def defaultEncoding_def
          NewCore_def NewJSONEncoder_def sinks_def
        split: sum.splits prod.splits if_splits)
qed

lemma gated_write:
  assumes "distinct ts" and "ts \<noteq> []"
    and "st' = (if rank T \<le> rank S then MultiWrite ts e st else st)"
  shows "((\<forall>w\<in>set ts. written st' w = written st w @ [e]) \<longleftrightarrow> rank T \<le> rank S) \<and>
         (rank S < rank T \<longrightarrow> written st' = written st) \<and>
         (\<forall>w. w \<notin> set ts \<longrightarrow> written st' w = written st w)"
proof (cases "rank T \<le> rank S")
  case True
  with assms show ?thesis by (simp add: written_MultiWrite)
next
  case False
  from assms(2) obtain w where "w \<in> set ts" by (cases ts) auto
  with False assms(3) show ?thesis by auto
qed

lemma quiet_api:
  "\<forall>opt\<in>set [WithLogLevel ''error'', WithOutput (Some 0)]. apiOption opt"
  by (simp add: api_WithLogLevel api_WithOutput)

lemma Printf_sugar:
  "Printf env l format args st = sugar_log (SugaredLogger l) InfoLevel (Sprintf env format args) [] st"
  "Debugf env l format args st = sugar_log (SugaredLogger l) DebugLevel (Sprintf env format args) [] st"
  by (simp_all add: Printf_def Debugf_def sugar_Infof_def sugar_Debugf_def)

lemma SetLogLevel_unsupported:
  "lv \<notin> supportedLevels \<Longrightarrow> SetLogLevel l lv st = Warn l unsupportedLevelWarning [] st"
  by (simp add: SetLogLevel_def supportedLevels_def)

lemma written_gated:
  assumes "distinct ts"
    and "st' = (if c then MultiWrite ts e st else st)"
  shows "written st' w = written st w \<or> written st' w = written st w @ [e]"
  using assms by (simp add: written_MultiWrite)



lemma apiOption_instanceID:
  "apiOption opt \<Longrightarrow> (\<forall>x. opt \<noteq> WithInstanceID x) \<Longrightarrow>
   instanceID (config (opt l)) = instanceID (config l)"
proof (induction rule: apiOption.induct)
  case (api_WithInstanceID iid)
  then show ?case by blast
qed (simp_all add: option_defs)

lemma applyOptions_instanceID:
  "\<forall>opt\<in>set opts. apiOption opt \<and> (\<forall>x. opt \<noteq> WithInstanceID x) \<Longrightarrow>
   instanceID (config (applyOptions opts l)) = instanceID (config l)"
  by (induction opts arbitrary: l)
     (simp_all add: applyOptions_Nil applyOptions_Cons apiOption_instanceID)

subsection \<open>Fields bound on the way, and what a decoder reads\<close>

lemma tagged_eval:
  "NewLogger exampleEnv ''myservice'' ''1.0.0'' [WithOutput (Some 0), WithInstanceID ''my_instance'']
     exampleWorld = Inr (taggedLogger, taggedWorld)"
  by (simp add: eval_defs taggedLogger_def taggedWorld_def exampleEnv_def exampleWorld_def
        lowerASCII_def Let_def)

lemma relabelled_eval: "With taggedLogger [(''instance_id'', ''x'')] = Inr relabelledLogger"
  by (simp add: With_def sugar_With_def taggedLogger_def relabelledLogger_def)

lemma relabelled_Info:
  "written (snd (Info relabelledLogger ''m'' [] taggedWorld)) (Out 0) = [relabelledEntry]"
  by (simp add: Info_def Infow_def sugar_log_def Enabled_def Write_def EncodeEntry_def
        relabelledLogger_def taggedWorld_def exampleWorld_def relabelledEntry_def)

lemma bindsFields_core:
  assumes "bindsFields root fs d" and "SugaredLogger root = Some c0"
  shows "SugaredLogger d = Some (c0\<lparr>encoder := (encoder c0)\<lparr>bound := bound (encoder c0) @ fs\<rparr>\<rparr>)"
  using assms
proof (induction rule: bindsFields.induct)
  case binds_none
  then show ?case by simp
next
  case (binds_With fs d keyvals d')
  then show ?case
    by (auto simp: With_def sugar_With_def split: sum.splits)
qed

lemma bindsFields_log:
  assumes "NewLogger env app version opts st0 = Inr (root, st1)" and "bindsFields root fs d"
  shows "\<exists>a ts. distinct ts \<and>
           (\<forall>S msg kvs st. sugar_log (SugaredLogger d) S msg kvs st =
              (terminal S msg,
               if rank (levels st a) \<le> rank S
               then MultiWrite ts
                      (EncodeEntry
                         \<lparr>kind = encoding (config root), keys = stdKeys,
                          bound = [(''service'', app), (''version'', version),
                                   (''instance_id'', instanceID (config root))] @ fs\<rparr>
                         (clock st) S msg kvs) st
               else st))"
proof -
  from NewLogger_core[OF assms(1)] obtain a ts where
    r: "SugaredLogger root =
            Some \<lparr>gate = Some a,
                  encoder = \<lparr>kind = encoding (config root), keys = stdKeys,
                             bound = [(''service'', app), (''version'', version),
                                      (''instance_id'', instanceID (config root))]\<rparr>,
                  syncer = ts\<rparr>"
    and d: "distinct ts"
    by blast
  have "\<forall>S msg kvs st. sugar_log (SugaredLogger d) S msg kvs st =
              (terminal S msg,
               if rank (levels st a) \<le> rank S
               then MultiWrite ts
                      (EncodeEntry
                         \<lparr>kind = encoding (config root), keys = stdKeys,
                          bound = [(''service'', app), (''version'', version),
                                   (''instance_id'', instanceID (config root))] @ fs\<rparr>
                         (clock st) S msg kvs) st
               else st)"
    by (simp add: bindsFields_core[OF assms(2) r] sugar_log_core)
  with d show ?thesis by blast
qed

lemma decoded_instance_id:
  assumes "''instance_id'' \<notin> fst ` set (fs @ kvs)"
  shows "decoded (EncodeEntry \<lparr>kind = k, keys = stdKeys,
            bound = [(''service'', app), (''version'', version), (''instance_id'', iid)] @ fs\<rparr>
          t S msg kvs) ''instance_id'' = Some iid"
proof -
  have "map_of (rev (fs @ kvs)) ''instance_id'' = None"
    using assms by (simp add: map_of_eq_None_iff image_Un)
  then show ?thesis
    by (simp add: decoded_def EncodeEntry_def stdKeys_def levelKey_def messageKey_def timeKey_def
          map_add_def map_of_append split: option.splits)
qed

lemma member_instance_id:
  "(''instance_id'', iid) \<in> set (pairs (EncodeEntry \<lparr>kind = k, keys = ks,
            bound = [(''service'', app), (''version'', version), (''instance_id'', iid)] @ fs\<rparr>
          t S msg kvs))"
  by (simp add: EncodeEntry_def)

section \<open>The properties\<close>

text \<open>
  C1, evaluated on the code. The claim says that the encoding option applied with
  "console" yields a console-encoded logger. \<^verbatim>\<open>WithEncoding\<close> ignores its argument and
  stores the default: the logger built with \<^verbatim>\<open>WithEncoding("console")\<close> has the
  configured encoding json and a json encoder.
\<close>

theorem C1_WithEncoding_keeps_json:
  "\<exists>l st' c. NewLogger env app version [WithEncoding ''console''] st = Inr (l, st') \<and>
     encoding (config l) = ''json'' \<and> SugaredLogger l = Some c \<and> kind (encoder c) = ''json''"
proof -
  define l0 where "l0 = WithEncoding ''console'' (emptyLogger env app)"
  have 1: "encoding (config l0) = defaultEncoding" "syslogConn (config l0) = []"
    "getZapLogLevel (logLevel (config l0)) = Inr InfoLevel"
    "l0 = applyOptions [WithEncoding ''console''] (emptyLogger env app)"
    by (simp_all add: l0_def emptyLogger_def newConfig_def applyOptions_def getZapLogLevel_def
          defaultLevel_def WithEncoding_def)
  show ?thesis
    unfolding NewLogger_plain[OF 1]
    by (simp add: l0_def emptyLogger_def newConfig_def WithEncoding_def defaultEncoding_def)
qed

text \<open>
  C2, evaluated on the code. The claim says that the rotation setters on a derived
  facade update the parent's rotation state and do not fail. \<^verbatim>\<open>With\<close> shares the
  level and the configuration but stores a nil rotator, so on the facade derived from a
  freshly built logger both setters panic on the nil pointer and change nothing, while
  the setter on the parent returns.
\<close>

theorem C2_derived_rotation_setters_panic:
  "\<exists>l st1 d a. NewLogger env app version [] st = Inr (l, st1) \<and>
     With l [(''k'', ''v'')] = Inr d \<and> rotator l = Some a \<and> rotator d = None \<and>
     fst (SetLogRotationSize l n st1) = Returned \<and>
     SetLogRotationSize d n st1 = (Panicked nilDereference, st1) \<and>
     SetLogRotationCount d n st1 = (Panicked nilDereference, st1)"
proof -
  define l0 where "l0 = emptyLogger env app"
  have 1: "encoding (config l0) = defaultEncoding" "syslogConn (config l0) = []"
    "getZapLogLevel (logLevel (config l0)) = Inr InfoLevel"
    "l0 = applyOptions [] (emptyLogger env app)"
    by (simp_all add: l0_def emptyLogger_def newConfig_def applyOptions_def getZapLogLevel_def
          defaultLevel_def)
  show ?thesis
    unfolding NewLogger_plain[OF 1]
    by (simp add: With_def sugar_With_def SetLogRotationSize_def SetLogRotationCount_def)
qed

text \<open>
  C3, amended. For every string that is none of debug, info, warn, error, panic,
  fatal, \<^verbatim>\<open>SetLogLevel\<close> returns without a panic, leaves the threshold unchanged and
  logs the warning through the same logger: it is the call of \<open>Warn\<close> with the fixed
  message, whose record reaches the sinks if and only if the current threshold is at
  or below warn.
\<close>

theorem C3_unsupported_runtime_level:
  assumes "\<forall>opt\<in>set opts. apiOption opt"
    and "NewLogger env app version opts st0 = Inr (root, st1)"
    and "derived root l"
    and "lv \<notin> supportedLevels"
  shows "\<exists>T e. threshold l st = Some T \<and> sinks l \<noteq> [] \<and>
           field e levelKey = Some ''WARN'' \<and>
           field e messageKey = Some unsupportedLevelWarning \<and>
           SetLogLevel l lv st = Warn l unsupportedLevelWarning [] st \<and>
           fst (SetLogLevel l lv st) = Returned \<and>
           levels (snd (SetLogLevel l lv st)) = levels st \<and>
           threshold l (snd (SetLogLevel l lv st)) = Some T \<and>
           ((\<forall>w\<in>set (sinks l). written (snd (SetLogLevel l lv st)) w = written st w @ [e])
              \<longleftrightarrow> rank T \<le> rank WarnLevel) \<and>
           (rank WarnLevel < rank T \<longrightarrow> written (snd (SetLogLevel l lv st)) = written st)"
proof -
  from facade_log[OF assms(2,3)] obtain a extra where
    d: "distinct (sinks l)" and sr: "sinks l = sinks root"
    and th: "\<And>st. threshold l st = Some (levels st a)"
    and lg: "\<And>S msg fs st. sugar_log (SugaredLogger l) S msg fs st =
              (terminal S msg,
               if rank (levels st a) \<le> rank S
               then MultiWrite (sinks l)
                      (EncodeEntry
                         \<lparr>kind = encoding (config root), keys = stdKeys,
                          bound = [(''service'', app), (''version'', version),
                                   (''instance_id'', instanceID (config root))] @ extra\<rparr>
                         (clock st) S msg fs) st
               else st)"
    by blast
  define e where "e = EncodeEntry
                         \<lparr>kind = encoding (config root), keys = stdKeys,
                          bound = [(''service'', app), (''version'', version),
                                   (''instance_id'', instanceID (config root))] @ extra\<rparr>
                         (clock st) WarnLevel unsupportedLevelWarning []"
  have ne: "sinks l \<noteq> []"
    using NewLogger_api(3)[OF assms(1,2)] sr by auto
  have w: "SetLogLevel l lv st = Warn l unsupportedLevelWarning [] st"
    by (rule SetLogLevel_unsupported[OF assms(4)])
  have st': "snd (SetLogLevel l lv st) =
               (if rank (levels st a) \<le> rank WarnLevel then MultiWrite (sinks l) e st else st)"
    and r: "fst (SetLogLevel l lv st) = Returned"
    unfolding w using logAt_sugar[of WarnLevel l]
    by (simp_all add: lg e_def terminal_def)
  have lv: "levels (snd (SetLogLevel l lv st)) = levels st"
    unfolding st' by (simp add: MultiWrite_rest)
  have f: "field e levelKey = Some (CapitalString WarnLevel)"
    "field e messageKey = Some unsupportedLevelWarning"
    unfolding e_def by (rule field_EncodeEntry; simp)+
  from gated_write[OF d ne st'] th[of st] th[of "snd (SetLogLevel l lv st)"] lv ne f r w
  show ?thesis by auto
qed

text \<open>C3, amended, on the logger built with the level error and the name "verbose".\<close>

theorem C3_unsupported_runtime_level_witness:
  "apiOption (WithLogLevel ''error'') \<and> apiOption (WithOutput (Some 0)) \<and>
   NewLogger exampleEnv ''svc'' ''1.0'' [WithLogLevel ''error'', WithOutput (Some 0)] exampleWorld
     = Inr (quietLogger, quietWorld) \<and>
   derived quietLogger quietLogger \<and> ''verbose'' \<notin> supportedLevels \<and>
   fst (SetLogLevel quietLogger ''verbose'' quietWorld) = Returned \<and>
   threshold quietLogger (snd (SetLogLevel quietLogger ''verbose'' quietWorld)) = Some ErrorLevel"
proof -
  have t: "threshold quietLogger quietWorld = Some ErrorLevel"
    by (simp add: threshold_def quietLogger_def quietWorld_def)
  have v: "''verbose'' \<notin> supportedLevels"
    by (simp add: supportedLevels_def)
  from C3_unsupported_runtime_level[OF quiet_api quiet_eval derived_self v, of quietWorld] t
  have "fst (SetLogLevel quietLogger ''verbose'' quietWorld) = Returned \<and>
   threshold quietLogger (snd (SetLogLevel quietLogger ''verbose'' quietWorld)) = Some ErrorLevel"
    by auto
  with t v quiet_eval show ?thesis
    by (simp add: api_WithLogLevel api_WithOutput derived_self)
qed

text \<open>
  C3 as stated fails: on the logger built with the level error, \<^verbatim>\<open>SetLogLevel("verbose")\<close>
  leaves both sinks empty, so no warning record is emitted.
\<close>

theorem C3_no_warning_emitted_counterexample:
  "NewLogger exampleEnv ''svc'' ''1.0'' [WithLogLevel ''error'', WithOutput (Some 0)] exampleWorld
     = Inr (quietLogger, quietWorld) \<and>
   ''verbose'' \<notin> supportedLevels \<and>
   sinks quietLogger = [Out 0, Rotator 0] \<and>
   written quietWorld (Out 0) = [] \<and> written quietWorld (Rotator 0) = [] \<and>
   written (snd (SetLogLevel quietLogger ''verbose'' quietWorld)) (Out 0) = [] \<and>
   written (snd (SetLogLevel quietLogger ''verbose'' quietWorld)) (Rotator 0) = []"
proof -
  have "''verbose'' \<notin> supportedLevels \<and>
   sinks quietLogger = [Out 0, Rotator 0] \<and>
   written quietWorld (Out 0) = [] \<and> written quietWorld (Rotator 0) = [] \<and>
   written (snd (SetLogLevel quietLogger ''verbose'' quietWorld)) (Out 0) = [] \<and>
   written (snd (SetLogLevel quietLogger ''verbose'' quietWorld)) (Rotator 0) = []"
    by (simp add: supportedLevels_def sinks_def SetLogLevel_def Warn_def Warnw_def
        sugar_log_def Enabled_def quietLogger_def quietWorld_def exampleWorld_def)
  with quiet_eval show ?thesis by simp
qed

text \<open>
  C4. For every facade of a logger built from exported options, every severity S of
  the six leveled methods and every current threshold T: the call's record (level S,
  the message, the call's fields) is appended to every sink of the logger if and only
  if S is at or above T; below the threshold no sink changes; a writer that is not a
  sink of the logger never changes.
\<close>

theorem C4_admission:
  assumes "\<forall>opt\<in>set opts. apiOption opt"
    and "NewLogger env app version opts st0 = Inr (root, st1)"
    and "derived root l"
  shows "\<exists>T e. threshold l st = Some T \<and> sinks l \<noteq> [] \<and>
           field e levelKey = Some (CapitalString S) \<and> field e messageKey = Some msg \<and>
           set keyvals \<subseteq> set (pairs e) \<and>
           ((\<forall>w\<in>set (sinks l). written (snd (logAt S l msg keyvals st)) w = written st w @ [e])
              \<longleftrightarrow> rank T \<le> rank S) \<and>
           (rank S < rank T \<longrightarrow> written (snd (logAt S l msg keyvals st)) = written st) \<and>
           (\<forall>w. w \<notin> set (sinks l) \<longrightarrow> written (snd (logAt S l msg keyvals st)) w = written st w)"
proof -
  from facade_log[OF assms(2,3)] obtain a extra where
    d: "distinct (sinks l)" and sr: "sinks l = sinks root"
    and th: "threshold l st = Some (levels st a)"
    and lg: "\<And>S msg fs st. sugar_log (SugaredLogger l) S msg fs st =
              (terminal S msg,
               if rank (levels st a) \<le> rank S
               then MultiWrite (sinks l)
                      (EncodeEntry
                         \<lparr>kind = encoding (config root), keys = stdKeys,
                          bound = [(''service'', app), (''version'', version),
                                   (''instance_id'', instanceID (config root))] @ extra\<rparr>
                         (clock st) S msg fs) st
               else st)"
    by blast
  define e where "e = EncodeEntry
                         \<lparr>kind = encoding (config root), keys = stdKeys,
                          bound = [(''service'', app), (''version'', version),
                                   (''instance_id'', instanceID (config root))] @ extra\<rparr>
                         (clock st) S msg keyvals"
  have ne: "sinks l \<noteq> []"
    using NewLogger_api(3)[OF assms(1,2)] sr by auto
  have st': "snd (logAt S l msg keyvals st) =
               (if rank (levels st a) \<le> rank S then MultiWrite (sinks l) e st else st)"
    by (simp add: logAt_sugar lg e_def)
  have f: "field e levelKey = Some (CapitalString S)" "field e messageKey = Some msg"
    "set keyvals \<subseteq> set (pairs e)"
    unfolding e_def by (rule field_EncodeEntry; simp)+
  from gated_write[OF d ne st'] th ne f show ?thesis by blast
qed

text \<open>
  C4 on the logger built with the level error: a Warn call writes nothing, a Fatal
  call writes its record to both sinks.
\<close>

theorem C4_admission_witness:
  "apiOption (WithLogLevel ''error'') \<and> apiOption (WithOutput (Some 0)) \<and>
   NewLogger exampleEnv ''svc'' ''1.0'' [WithLogLevel ''error'', WithOutput (Some 0)] exampleWorld
     = Inr (quietLogger, quietWorld) \<and>
   derived quietLogger quietLogger \<and>
   threshold quietLogger quietWorld = Some ErrorLevel \<and>
   sinks quietLogger = [Out 0, Rotator 0] \<and>
   written (snd (logAt WarnLevel quietLogger ''w'' [] quietWorld)) = written quietWorld \<and>
   (\<exists>e. field e levelKey = Some ''FATAL'' \<and> field e messageKey = Some ''f'' \<and>
        written (snd (logAt FatalLevel quietLogger ''f'' [] quietWorld)) (Out 0) = [e] \<and>
        written (snd (logAt FatalLevel quietLogger ''f'' [] quietWorld)) (Rotator 0) = [e])"
proof -
  have t: "threshold quietLogger quietWorld = Some ErrorLevel"
    by (simp add: threshold_def quietLogger_def quietWorld_def)
  have s: "sinks quietLogger = [Out 0, Rotator 0]"
    by (simp add: sinks_def quietLogger_def)
  have w: "written quietWorld = (\<lambda>w. [])"
    by (simp add: quietWorld_def exampleWorld_def)
  from C4_admission[OF quiet_api quiet_eval derived_self, of quietWorld WarnLevel "''w''" "[]"] t
  have 1: "written (snd (logAt WarnLevel quietLogger ''w'' [] quietWorld)) = written quietWorld"
    by auto
  from C4_admission[OF quiet_api quiet_eval derived_self, of quietWorld FatalLevel "''f''" "[]"] t s w
  have 2: "\<exists>e. field e levelKey = Some ''FATAL'' \<and> field e messageKey = Some ''f'' \<and>
        written (snd (logAt FatalLevel quietLogger ''f'' [] quietWorld)) (Out 0) = [e] \<and>
        written (snd (logAt FatalLevel quietLogger ''f'' [] quietWorld)) (Rotator 0) = [e]"
    by auto
  from 1 2 t s quiet_eval show ?thesis
    by (simp add: api_WithLogLevel api_WithOutput derived_self)
qed



text \<open>
  C6. For every service name and version, \<^verbatim>\<open>NewLogger\<close> with no options returns a
  logger whose configuration has level info, rotation size 20, rotation count 3,
  encoding json and the log path "/logs/" + lowercase(service) + ".log"; the threshold
  and the rotator it creates carry the same values.
\<close>

theorem C6_defaults:
  "\<exists>l st'. NewLogger env s v [] st = Inr (l, st') \<and>
     logLevel (config l) = ''info'' \<and> rotationSize (config l) = 20 \<and>
     rotationCount (config l) = 3 \<and> encoding (config l) = ''json'' \<and>
     logPath (config l) = ''/logs/'' @ ToLower env s @ ''.log'' \<and>
     threshold l st' = Some InfoLevel \<and>
     (\<exists>a. rotator l = Some a \<and> MaxSize (rotators st' a) = 20 \<and> MaxBackups (rotators st' a) = 3 \<and>
          Filename (rotators st' a) = ''/logs/'' @ ToLower env s @ ''.log'')"
proof -
  define l0 where "l0 = emptyLogger env s"
  have 1: "encoding (config l0) = defaultEncoding" "syslogConn (config l0) = []"
    "getZapLogLevel (logLevel (config l0)) = Inr InfoLevel"
    "l0 = applyOptions [] (emptyLogger env s)"
    by (simp_all add: l0_def emptyLogger_def newConfig_def applyOptions_def getZapLogLevel_def
          defaultLevel_def)
  show ?thesis
    unfolding NewLogger_plain[OF 1]
    by (simp add: l0_def emptyLogger_def newConfig_def threshold_def defaultLevel_def
          maxsize_def maxcount_def defaultEncoding_def logFilePathFormat_def)
qed

text \<open>C6 at the service name "MyService": the path is "/logs/myservice.log".\<close>

theorem C6_defaults_witness:
  "\<exists>l st'. NewLogger exampleEnv ''MyService'' ''1.0.0'' [] exampleWorld = Inr (l, st') \<and>
     logLevel (config l) = ''info'' \<and> rotationSize (config l) = 20 \<and>
     rotationCount (config l) = 3 \<and> encoding (config l) = ''json'' \<and>
     logPath (config l) = ''/logs/myservice.log''"
proof -
  have "ToLower exampleEnv ''MyService'' = ''myservice''"
    by (simp add: exampleEnv_def lowerASCII_def)
  with C6_defaults[of exampleEnv "''MyService''" "''1.0.0''" exampleWorld]
  show ?thesis by auto
qed

text \<open>
  C7, amended. The logger built with only \<^verbatim>\<open>WithOutput(b)\<close>, given \<^verbatim>\<open>Info(msg)\<close>, appends
  exactly one record to the writer b: json-encoded, with no key repeated, level "INFO",
  the message, service and version as passed to the constructor, and the ISO-8601 time.
  And when \<^verbatim>\<open>WithInstanceID(iid)\<close> is the last instance option, every record that a
  leveled method, \<^verbatim>\<open>Printf\<close> or \<^verbatim>\<open>Debugf\<close> of any facade of the logger writes contains the
  pair instance_id = iid, and a decoder reads iid under instance_id whenever none of the
  fields bound by \<open>With\<close> or passed to the call is itself named instance_id.
\<close>

theorem C7_json_record_and_instance_id:
  "(\<exists>l st1 e. NewLogger env app version [WithOutput (Some b)] st = Inr (l, st1) \<and>
      fst (Info l msg [] st1) = Returned \<and>
      written (snd (Info l msg [] st1)) (Out b) = written st (Out b) @ [e] \<and>
      encodedAs e = ''json'' \<and> distinct (map fst (pairs e)) \<and>
      decoded e ''level'' = Some ''INFO'' \<and> decoded e ''msg'' = Some msg \<and>
      decoded e ''service'' = Some app \<and> decoded e ''version'' = Some version \<and>
      decoded e ''time'' = Some (clock st ISO8601TimeEncoder)) \<and>
   ((\<forall>opt\<in>set post. apiOption opt \<and> (\<forall>x. opt \<noteq> WithInstanceID x)) \<longrightarrow>
    NewLogger env app version (pre @ WithInstanceID iid # post) st0 = Inr (root, st1') \<longrightarrow>
    bindsFields root fs d \<longrightarrow>
      (\<forall>S m keyvals st' w.
         written (snd (logAt S d m keyvals st')) w = written st' w \<or>
         (\<exists>e. written (snd (logAt S d m keyvals st')) w = written st' w @ [e] \<and>
              (''instance_id'', iid) \<in> set (pairs e) \<and>
              (''instance_id'' \<notin> fst ` set (fs @ keyvals) \<longrightarrow>
                 decoded e ''instance_id'' = Some iid))) \<and>
      (\<forall>env' format args st' w.
         written (snd (Printf env' d format args st')) w = written st' w \<or>
         (\<exists>e. written (snd (Printf env' d format args st')) w = written st' w @ [e] \<and>
              (''instance_id'', iid) \<in> set (pairs e) \<and>
              (''instance_id'' \<notin> fst ` set fs \<longrightarrow> decoded e ''instance_id'' = Some iid))) \<and>
      (\<forall>env' format args st' w.
         written (snd (Debugf env' d format args st')) w = written st' w \<or>
         (\<exists>e. written (snd (Debugf env' d format args st')) w = written st' w @ [e] \<and>
              (''instance_id'', iid) \<in> set (pairs e) \<and>
              (''instance_id'' \<notin> fst ` set fs \<longrightarrow> decoded e ''instance_id'' = Some iid))))"
proof (intro conjI impI)
  define l0 where "l0 = WithOutput (Some b) (emptyLogger env app)"
  have 1: "encoding (config l0) = defaultEncoding" "syslogConn (config l0) = []"
    "getZapLogLevel (logLevel (config l0)) = Inr InfoLevel"
    "l0 = applyOptions [WithOutput (Some b)] (emptyLogger env app)"
    by (simp_all add: l0_def emptyLogger_def newConfig_def applyOptions_def getZapLogLevel_def
          defaultLevel_def WithOutput_def)
  show "\<exists>l st1 e. NewLogger env app version [WithOutput (Some b)] st = Inr (l, st1) \<and>
      fst (Info l msg [] st1) = Returned \<and>
      written (snd (Info l msg [] st1)) (Out b) = written st (Out b) @ [e] \<and>
      encodedAs e = ''json'' \<and> distinct (map fst (pairs e)) \<and>
      decoded e ''level'' = Some ''INFO'' \<and> decoded e ''msg'' = Some msg \<and>
      decoded e ''service'' = Some app \<and> decoded e ''version'' = Some version \<and>
      decoded e ''time'' = Some (clock st ISO8601TimeEncoder)"
    unfolding NewLogger_plain[OF 1]
    by (simp add: l0_def emptyLogger_def newConfig_def WithOutput_def outTargets_def
          Info_def Infow_def sugar_log_def Enabled_def terminal_def Write_def
          EncodeEntry_def decoded_def stdKeys_def levelKey_def messageKey_def timeKey_def)
next
  assume post: "\<forall>opt\<in>set post. apiOption opt \<and> (\<forall>x. opt \<noteq> WithInstanceID x)"
    and n: "NewLogger env app version (pre @ WithInstanceID iid # post) st0 = Inr (root, st1')"
    and d: "bindsFields root fs d"
  have "instanceID (config (applyOptions (pre @ WithInstanceID iid # post) (emptyLogger env app))) = iid"
    using applyOptions_instanceID[OF post]
    by (simp add: applyOptions_append applyOptions_Cons WithInstanceID_def)
  with NewLogger_core[OF n] have iid: "instanceID (config root) = iid"
    by auto
  from bindsFields_log[OF n d] obtain a ts where
    ds: "distinct ts"
    and lg: "\<And>S msg kvs st. sugar_log (SugaredLogger d) S msg kvs st =
              (terminal S msg,
               if rank (levels st a) \<le> rank S
               then MultiWrite ts
                      (EncodeEntry
                         \<lparr>kind = encoding (config root), keys = stdKeys,
                          bound = [(''service'', app), (''version'', version),
                                   (''instance_id'', instanceID (config root))] @ fs\<rparr>
                         (clock st) S msg kvs) st
               else st)"
    by blast
  have em: "written (snd (sugar_log (SugaredLogger d) S m kvs st')) w = written st' w \<or>
         (\<exists>e. written (snd (sugar_log (SugaredLogger d) S m kvs st')) w = written st' w @ [e] \<and>
              (''instance_id'', iid) \<in> set (pairs e) \<and>
              (''instance_id'' \<notin> fst ` set (fs @ kvs) \<longrightarrow> decoded e ''instance_id'' = Some iid))"
    for S m kvs st' w
  proof -
    define e where "e = EncodeEntry
                         \<lparr>kind = encoding (config root), keys = stdKeys,
                          bound = [(''service'', app), (''version'', version),
                                   (''instance_id'', iid)] @ fs\<rparr>
                         (clock st') S m kvs"
    have s: "snd (sugar_log (SugaredLogger d) S m kvs st') =
               (if rank (levels st' a) \<le> rank S then MultiWrite ts e st' else st')"
      by (simp add: lg iid e_def)
    have f: "(''instance_id'', iid) \<in> set (pairs e)"
      unfolding e_def by (rule member_instance_id)
    have g: "''instance_id'' \<notin> fst ` set (fs @ kvs) \<longrightarrow> decoded e ''instance_id'' = Some iid"
      unfolding e_def using decoded_instance_id by blast
    from written_gated[OF ds s, of w] f g show ?thesis by blast
  qed
  show "\<forall>S m keyvals st' w.
         written (snd (logAt S d m keyvals st')) w = written st' w \<or>
         (\<exists>e. written (snd (logAt S d m keyvals st')) w = written st' w @ [e] \<and>
              (''instance_id'', iid) \<in> set (pairs e) \<and>
              (''instance_id'' \<notin> fst ` set (fs @ keyvals) \<longrightarrow>
                 decoded e ''instance_id'' = Some iid))"
    using em by (simp add: logAt_sugar)
  show "\<forall>env' format args st' w.
         written (snd (Printf env' d format args st')) w = written st' w \<or>
         (\<exists>e. written (snd (Printf env' d format args st')) w = written st' w @ [e] \<and>
              (''instance_id'', iid) \<in> set (pairs e) \<and>
              (''instance_id'' \<notin> fst ` set fs \<longrightarrow> decoded e ''instance_id'' = Some iid))"
    using em[of _ _ "[]"] by (simp add: Printf_sugar)
  show "\<forall>env' format args st' w.
         written (snd (Debugf env' d format args st')) w = written st' w \<or>
         (\<exists>e. written (snd (Debugf env' d format args st')) w = written st' w @ [e] \<and>
              (''instance_id'', iid) \<in> set (pairs e) \<and>
              (''instance_id'' \<notin> fst ` set fs \<longrightarrow> decoded e ''instance_id'' = Some iid))"
    using em[of _ _ "[]"] by (simp add: Printf_sugar)
qed

text \<open>
  C7, amended, with the options \<^verbatim>\<open>WithOutput(w), WithInstanceID("my_instance"), WithLogLevel("debug")\<close>
  on the facade \<^verbatim>\<open>With("k", "v")\<close>: an Info call with the field n = 1 writes one record
  to w, and a decoder reads instance_id "my_instance".
\<close>

theorem C7_json_record_and_instance_id_witness:
  "apiOption (WithLogLevel ''debug'') \<and>
   (\<exists>root st1 d e.
      NewLogger exampleEnv ''myservice'' ''1.0.0''
        [WithOutput (Some 0), WithInstanceID ''my_instance'', WithLogLevel ''debug'']
        exampleWorld = Inr (root, st1) \<and>
      With root [(''k'', ''v'')] = Inr d \<and> bindsFields root [(''k'', ''v'')] d \<and>
      written (snd (logAt InfoLevel d ''this is a test message'' [(''n'', ''1'')] st1)) (Out 0) = [e] \<and>
      (''instance_id'', ''my_instance'') \<in> set (pairs e) \<and>
      decoded e ''instance_id'' = Some ''my_instance'')"
proof -
  have "WithLogLevel ''debug'' \<noteq> WithInstanceID x" for x
  proof
    assume "WithLogLevel ''debug'' = WithInstanceID x"
    then have "logLevel (config (WithLogLevel ''debug'' (emptyLogger exampleEnv []))) =
               logLevel (config (WithInstanceID x (emptyLogger exampleEnv [])))"
      by simp
    then show False
      by (simp add: option_defs emptyLogger_def newConfig_def defaultLevel_def)
  qed
  then have p: "\<forall>opt\<in>set [WithLogLevel ''debug'']. apiOption opt \<and> (\<forall>x. opt \<noteq> WithInstanceID x)"
    by (simp add: api_WithLogLevel)
  have "\<exists>root st1 d. NewLogger exampleEnv ''myservice'' ''1.0.0''
        ([WithOutput (Some 0)] @ WithInstanceID ''my_instance'' # [WithLogLevel ''debug''])
        exampleWorld = Inr (root, st1) \<and> With root [(''k'', ''v'')] = Inr d \<and>
        written st1 (Out 0) = [] \<and>
        length (written (snd (logAt InfoLevel d ''this is a test message'' [(''n'', ''1'')] st1))
                 (Out 0)) = 1"
    by (simp add: eval_defs exampleEnv_def exampleWorld_def lowerASCII_def Let_def
          With_def sugar_With_def Info_def Infow_def sugar_log_def Enabled_def Write_def)
  then obtain root st1 d where
    n: "NewLogger exampleEnv ''myservice'' ''1.0.0''
        ([WithOutput (Some 0)] @ WithInstanceID ''my_instance'' # [WithLogLevel ''debug''])
        exampleWorld = Inr (root, st1)"
    and w: "With root [(''k'', ''v'')] = Inr d"
    and e0: "written st1 (Out 0) = []"
    and e1: "length (written (snd (logAt InfoLevel d ''this is a test message'' [(''n'', ''1'')] st1))
                 (Out 0)) = 1"
    by blast
  from binds_With[OF binds_none w] have b: "bindsFields root [(''k'', ''v'')] d"
    by simp
  note inst = C7_json_record_and_instance_id[of exampleEnv "''myservice''" "''1.0.0''" 0
      exampleWorld "[]" "[WithLogLevel ''debug'']" "[WithOutput (Some 0)]" "''my_instance''"
      exampleWorld root st1 "[(''k'', ''v'')]" d, THEN conjunct2, THEN mp, OF p, THEN mp, OF n,
      THEN mp, OF b, THEN conjunct1, THEN spec, THEN spec, THEN spec, THEN spec, THEN spec,
      of InfoLevel "''this is a test message''" "[(''n'', ''1'')]" st1 "Out 0"]
  with e0 e1 obtain e where
    "written (snd (logAt InfoLevel d ''this is a test message'' [(''n'', ''1'')] st1)) (Out 0) = [e]"
    "(''instance_id'', ''my_instance'') \<in> set (pairs e)"
    "decoded e ''instance_id'' = Some ''my_instance''"
    by auto
  with n w b show ?thesis
    by (auto simp: api_WithLogLevel)
qed

text \<open>
  C7 as stated fails: on the facade that \<^verbatim>\<open>With("instance_id", "x")\<close> derives from a logger
  built with \<^verbatim>\<open>WithInstanceID("my_instance")\<close>, the record of an Info call has the key
  instance_id twice, and a decoder reads "x" under it.
\<close>

theorem C7_duplicate_instance_id_counterexample:
  "NewLogger exampleEnv ''myservice'' ''1.0.0'' [WithOutput (Some 0), WithInstanceID ''my_instance'']
     exampleWorld = Inr (taggedLogger, taggedWorld) \<and>
   With taggedLogger [(''instance_id'', ''x'')] = Inr relabelledLogger \<and>
   written taggedWorld (Out 0) = [] \<and>
   written (snd (Info relabelledLogger ''m'' [] taggedWorld)) (Out 0) = [relabelledEntry] \<and>
   decoded relabelledEntry ''instance_id'' = Some ''x'' \<and>
   decoded relabelledEntry ''instance_id'' \<noteq> Some ''my_instance''"
proof -
  have "written taggedWorld (Out 0) = []"
    by (simp add: taggedWorld_def exampleWorld_def)
  moreover have "decoded relabelledEntry ''instance_id'' = Some ''x''"
    by (simp add: decoded_def relabelledEntry_def)
  ultimately show ?thesis
    using tagged_eval relabelled_eval relabelled_Info by simp
qed

text \<open>
  C8. When the level name that construction resolves (the last \<^verbatim>\<open>WithLogLevel\<close> among
  the options) is none of debug, info, warn, error, panic, fatal, \<^verbatim>\<open>NewLogger\<close> panics
  with the "unsupported log level" message: it returns no logger and substitutes no
  default.
\<close>

theorem C8_unsupported_level_panics:
  assumes "lv \<notin> supportedLevels"
    and "\<forall>opt\<in>set post. apiOption opt \<and> (\<forall>x. opt \<noteq> WithLogLevel x)"
  shows "NewLogger env app version (pre @ WithLogLevel lv # post) st =
           Inl (GoPanic (''unsupported log level '' @ lv @
             ''. debug, info, warn, error, panic and fatal are the only supported loglevels.''))"
proof -
  have "logLevel (config (applyOptions (pre @ WithLogLevel lv # post) (emptyLogger env app))) = lv"
    using applyOptions_logLevel[OF assms(2)]
    by (simp add: applyOptions_append applyOptions_Cons WithLogLevel_def)
  then show ?thesis
    using getZapLogLevel_unsupported[OF assms(1)] by (simp add: NewLogger_bad_level)
qed

text \<open>C8 at the level name "verbose", between two other options.\<close>

theorem C8_unsupported_level_panics_witness:
  "''verbose'' \<notin> supportedLevels \<and>
   NewLogger exampleEnv ''svc'' ''1.0''
     [WithOutput (Some 0), WithLogLevel ''verbose'', WithInstanceID ''i''] exampleWorld =
   Inl (GoPanic ''unsupported log level verbose. debug, info, warn, error, panic and fatal are the only supported loglevels.'')"
proof -
  have 1: "''verbose'' \<notin> supportedLevels"
    by (simp add: supportedLevels_def)
  have "WithInstanceID ''i'' \<noteq> WithLogLevel x" for x
  proof
    assume "WithInstanceID ''i'' = WithLogLevel x"
    then have "instanceID (config (WithInstanceID ''i'' (emptyLogger exampleEnv []))) =
               instanceID (config (WithLogLevel x (emptyLogger exampleEnv [])))"
      by simp
    then show False
      by (simp add: option_defs emptyLogger_def newConfig_def defaultInstanceID_def)
  qed
  then have 2: "\<forall>opt\<in>set [WithInstanceID ''i'']. apiOption opt \<and> (\<forall>x. opt \<noteq> WithLogLevel x)"
    by (simp add: api_WithInstanceID)
  show ?thesis
    using 1 C8_unsupported_level_panics[OF 1 2, of exampleEnv "''svc''" "''1.0''"
        "[WithOutput (Some 0)]" exampleWorld]
    by simp
qed

text \<open>
  C9. \<^verbatim>\<open>Printf\<close> returns, and its record (the formatted message, level "INFO") is
  appended to every sink if and only if Info is at or above the current threshold;
  otherwise no sink changes.
\<close>

theorem C9_Printf_info:
  assumes "\<forall>opt\<in>set opts. apiOption opt"
    and "NewLogger env app version opts st0 = Inr (root, st1)"
    and "derived root l"
  shows "\<exists>T e. threshold l st = Some T \<and> sinks l \<noteq> [] \<and>
           field e levelKey = Some ''INFO'' \<and>
           field e messageKey = Some (Sprintf env' format args) \<and>
           fst (Printf env' l format args st) = Returned \<and>
           ((\<forall>w\<in>set (sinks l). written (snd (Printf env' l format args st)) w = written st w @ [e])
              \<longleftrightarrow> rank T \<le> rank InfoLevel) \<and>
           (rank InfoLevel < rank T \<longrightarrow> written (snd (Printf env' l format args st)) = written st) \<and>
           (\<forall>w. w \<notin> set (sinks l) \<longrightarrow> written (snd (Printf env' l format args st)) w = written st w)"
proof -
  from facade_log[OF assms(2,3)] obtain a extra where
    d: "distinct (sinks l)" and sr: "sinks l = sinks root"
    and th: "threshold l st = Some (levels st a)"
    and lg: "\<And>S msg fs st. sugar_log (SugaredLogger l) S msg fs st =
              (terminal S msg,
               if rank (levels st a) \<le> rank S
               then MultiWrite (sinks l)
                      (EncodeEntry
                         \<lparr>kind = encoding (config root), keys = stdKeys,
                          bound = [(''service'', app), (''version'', version),
                                   (''instance_id'', instanceID (config root))] @ extra\<rparr>
                         (clock st) S msg fs) st
               else st)"
    by blast
  define e where "e = EncodeEntry
                         \<lparr>kind = encoding (config root), keys = stdKeys,
                          bound = [(''service'', app), (''version'', version),
                                   (''instance_id'', instanceID (config root))] @ extra\<rparr>
                         (clock st) InfoLevel (Sprintf env' format args) []"
  have ne: "sinks l \<noteq> []"
    using NewLogger_api(3)[OF assms(1,2)] sr by auto
  have st': "snd (Printf env' l format args st) =
               (if rank (levels st a) \<le> rank InfoLevel then MultiWrite (sinks l) e st else st)"
    and r: "fst (Printf env' l format args st) = Returned"
    by (simp_all add: Printf_sugar lg e_def terminal_def)
  have f: "field e levelKey = Some (CapitalString InfoLevel)"
    "field e messageKey = Some (Sprintf env' format args)"
    unfolding e_def by (rule field_EncodeEntry; simp)+
  from gated_write[OF d ne st'] th ne f r show ?thesis by auto
qed

text \<open>C9 on the logger built with the level error: \<^verbatim>\<open>Printf\<close> returns and writes nothing.\<close>

theorem C9_Printf_info_witness:
  "apiOption (WithLogLevel ''error'') \<and> apiOption (WithOutput (Some 0)) \<and>
   NewLogger exampleEnv ''svc'' ''1.0'' [WithLogLevel ''error'', WithOutput (Some 0)] exampleWorld
     = Inr (quietLogger, quietWorld) \<and>
   derived quietLogger quietLogger \<and>
   threshold quietLogger quietWorld = Some ErrorLevel \<and>
   fst (Printf exampleEnv quietLogger ''n=%d'' [''1''] quietWorld) = Returned \<and>
   written (snd (Printf exampleEnv quietLogger ''n=%d'' [''1''] quietWorld)) = written quietWorld"
proof -
  have t: "threshold quietLogger quietWorld = Some ErrorLevel"
    by (simp add: threshold_def quietLogger_def quietWorld_def)
  from C9_Printf_info[OF quiet_api quiet_eval derived_self, of quietWorld exampleEnv "''n=%d''" "[''1'']"] t
  have "fst (Printf exampleEnv quietLogger ''n=%d'' [''1''] quietWorld) = Returned \<and>
   written (snd (Printf exampleEnv quietLogger ''n=%d'' [''1''] quietWorld)) = written quietWorld"
    by auto
  with t quiet_eval show ?thesis
    by (simp add: api_WithLogLevel api_WithOutput derived_self)
qed

text \<open>
  C10. For every list of options built with the exported functions, the encoding that
  \<^verbatim>\<open>NewLogger\<close> hands to \<^verbatim>\<open>withWrapCore\<close> is json, so \<^verbatim>\<open>NewLogger\<close> never panics
  with "unknown encoding", and every logger it returns has the configured encoding
  json, a json encoder and its rotating-file sink among the write targets.
\<close>

theorem C10_always_json:
  assumes "\<forall>opt\<in>set opts. apiOption opt"
  shows "Encoding (loggerConfig (config (applyOptions opts (emptyLogger env app)))) = ''json'' \<and>
         NewLogger env app version opts st \<noteq> Inl (GoPanic ''unknown encoding'') \<and>
         (\<forall>l st'. NewLogger env app version opts st = Inr (l, st') \<longrightarrow>
            encoding (config l) = ''json'' \<and>
            (\<exists>a. rotator l = Some a \<and> Rotator a \<in> set (sinks l)) \<and>
            (\<exists>c. SugaredLogger l = Some c \<and> kind (encoder c) = ''json''))"
  using NewLogger_api[OF assms] by blast

text \<open>C10 at the options \<^verbatim>\<open>WithEncoding("console"), WithOutput(w)\<close>.\<close>

theorem C10_always_json_witness:
  "apiOption (WithEncoding ''console'') \<and> apiOption (WithOutput (Some 0)) \<and>
   (\<exists>l st' a. NewLogger exampleEnv ''svc'' ''1.0'' [WithEncoding ''console'', WithOutput (Some 0)]
                exampleWorld = Inr (l, st') \<and>
      encoding (config l) = ''json'' \<and> rotator l = Some a \<and> Rotator a \<in> set (sinks l))"
proof -
  have a: "\<forall>opt\<in>set [WithEncoding ''console'', WithOutput (Some 0)]. apiOption opt"
    by (simp add: api_WithEncoding api_WithOutput)
  obtain l st' where
    n: "NewLogger exampleEnv ''svc'' ''1.0'' [WithEncoding ''console'', WithOutput (Some 0)]
          exampleWorld = Inr (l, st')"
    by (simp add: eval_defs exampleEnv_def Let_def)
  from C10_always_json[OF a, of exampleEnv "''svc''" "''1.0''" exampleWorld] n a
  show ?thesis by auto
qed

end
